theory Spec2Isabelle
  imports Complex_Main "HOL-Library.AList" "HOL-Library.List_Lexorder" "HOL-Library.Char_ord"
begin

section \<open>Python values used by \<^verbatim>\<open>pcdl/timestep.py\<close>\<close>

text \<open>
  The loader is Python. Exceptions and \<^verbatim>\<open>sys.exit\<close> calls are values of the type
  \<open>error\<close>; a function that can raise returns \<open>error + 'a\<close> with \<open>Inl\<close> for the
  failure. The four last constructors are the \<^verbatim>\<open>sys.exit\<close> calls of the module, named
  after the condition they report.
\<close>

datatype error =
    ValueError
  | AttributeError
  | IndexError
  | KeyError
  | InconsistentMesh
  | SchemaMismatch
  | KeepAndDrop
  | ProcessingStopped

subsection \<open>Strings: \<^verbatim>\<open>str.strip\<close>, \<^verbatim>\<open>str.split\<close>, \<^verbatim>\<open>str(int)\<close>, \<^verbatim>\<open>int(str)\<close>, \<^verbatim>\<open>str.zfill\<close>\<close>

text \<open>
  Text is ASCII here. The white space of \<^verbatim>\<open>str.strip()\<close> is, within ASCII, the characters
  9 to 13, 28 to 31 and the blank. The white space that \<^verbatim>\<open>int()\<close> skips around the
  numeral of an ASCII string is less: the characters 9 to 13 and the blank.
\<close>

definition py_isspace :: "char \<Rightarrow> bool" where
  "py_isspace c =
     (let n = (of_char c :: nat) in (9 \<le> n \<and> n \<le> 13) \<or> (28 \<le> n \<and> n \<le> 32))"

definition py_strip :: "string \<Rightarrow> string" where
  "py_strip s = rev (dropWhile py_isspace (rev (dropWhile py_isspace s)))"

definition int_isspace :: "char \<Rightarrow> bool" where
  "int_isspace c = (let n = (of_char c :: nat) in (9 \<le> n \<and> n \<le> 13) \<or> n = 32)"

definition int_strip :: "string \<Rightarrow> string" where
  "int_strip s = rev (dropWhile int_isspace (rev (dropWhile int_isspace s)))"

text \<open>\<^verbatim>\<open>s.split(c)\<close> with a separator of one character: always at least one piece.\<close>

fun py_split :: "char \<Rightarrow> string \<Rightarrow> string list" where
  "py_split c [] = [[]]"
| "py_split c (x # xs) =
     (if x = c then [] # py_split c xs
      else (case py_split c xs of
              [] \<Rightarrow> [[x]]
            | y # ys \<Rightarrow> (x # y) # ys))"

definition is_digit :: "char \<Rightarrow> bool" where
  "is_digit c = (let n = (of_char c :: nat) in 48 \<le> n \<and> n \<le> 57)"

definition digit_val :: "char \<Rightarrow> nat" where
  "digit_val c = of_char c - 48"

definition digit_char :: "nat \<Rightarrow> char" where
  "digit_char d = char_of (48 + d)"

text \<open>\<^verbatim>\<open>str(n)\<close> for an integer: decimal digits, a minus sign when negative.\<close>

fun str_nat :: "nat \<Rightarrow> string" where
  "str_nat n = (if n < 10 then [digit_char n] else str_nat (n div 10) @ [digit_char (n mod 10)])"

declare str_nat.simps [simp del]

definition py_str :: "int \<Rightarrow> string" where
  "py_str i = (if i < 0 then CHR ''-'' # str_nat (nat (- i)) else str_nat (nat i))"

text \<open>
  \<^verbatim>\<open>int(s)\<close> for a string: the white space of \<^verbatim>\<open>int()\<close> is skipped at both ends, one sign
  is allowed, then decimal digits follow, where single underscores may stand between two
  digits. Anything else raises \<^verbatim>\<open>ValueError\<close>, here \<open>None\<close>; so does one of the
  characters 28 to 31 beside the numeral, which \<^verbatim>\<open>str.strip()\<close> would remove. CPython
  also refuses a numeral of more digits than a limit that can be set (4300 unless it is
  changed); numerals of that length are outside the model.
\<close>

fun parse_digits :: "nat \<Rightarrow> string \<Rightarrow> nat option" where
  "parse_digits acc [] = Some acc"
| "parse_digits acc [c] = (if is_digit c then Some (acc * 10 + digit_val c) else None)"
| "parse_digits acc (c # d # ds) =
     (if is_digit c then parse_digits (acc * 10 + digit_val c) (d # ds)
      else if c = CHR ''_'' \<and> is_digit d then parse_digits (acc * 10 + digit_val d) ds
      else None)"

definition parse_nat :: "string \<Rightarrow> nat option" where
  "parse_nat s =
     (case s of
        [] \<Rightarrow> None
      | c # cs \<Rightarrow> if is_digit c then parse_digits (digit_val c) cs else None)"

definition py_int :: "string \<Rightarrow> int option" where
  "py_int s =
     (case int_strip s of
        [] \<Rightarrow> None
      | c # cs \<Rightarrow>
          if c = CHR ''-'' then map_option (\<lambda>n. - int n) (parse_nat cs)
          else if c = CHR ''+'' then map_option int (parse_nat cs)
          else map_option int (parse_nat (c # cs)))"

text \<open>\<^verbatim>\<open>s.zfill(w)\<close> for a string without sign: zeros on the left up to the width.\<close>

definition zfill :: "nat \<Rightarrow> string \<Rightarrow> string" where
  "zfill w s = replicate (w - length s) CHR ''0'' @ s"

section \<open>The graph decoder: \<^verbatim>\<open>graphfile_parser\<close>\<close>

text \<open>
  The file is the list of its lines as the iteration over the file object yields them
  (each with its line end). A line is stripped and split at the colon into exactly two
  pieces, or the unpacking raises \<^verbatim>\<open>ValueError\<close>. The dictionary maps a cell ID to a
  set of cell IDs; a later line with the same key replaces the earlier entry.
\<close>

fun int_all :: "string list \<Rightarrow> error + int list" where
  "int_all [] = Inr []"
| "int_all (s # ss) =
     (case py_int s of
        None \<Rightarrow> Inl ValueError
      | Some i \<Rightarrow> (case int_all ss of Inl e \<Rightarrow> Inl e | Inr is \<Rightarrow> Inr (i # is)))"

definition parse_line :: "string \<Rightarrow> error + (int \<times> int set)" where
  "parse_line s_line =
     (case py_split CHR '':'' (py_strip s_line) of
        [s_key, s_value] \<Rightarrow>
          (case (if length (py_strip s_value) \<noteq> 0
                 then (case int_all (py_split CHR '','' s_value) of
                         Inl e \<Rightarrow> Inl e
                       | Inr is \<Rightarrow> Inr (set is))
                 else Inr {}) of
             Inl e \<Rightarrow> Inl e
           | Inr ei_value \<Rightarrow>
               (case py_int s_key of
                  None \<Rightarrow> Inl ValueError
                | Some k \<Rightarrow> Inr (k, ei_value)))
      | _ \<Rightarrow> Inl ValueError)"

fun graph_lines :: "(int \<rightharpoonup> int set) \<Rightarrow> string list \<Rightarrow> error + (int \<rightharpoonup> int set)" where
  "graph_lines dei_graph [] = Inr dei_graph"
| "graph_lines dei_graph (s_line # f) =
     (case parse_line s_line of
        Inl e \<Rightarrow> Inl e
      | Inr (k, ei_value) \<Rightarrow> graph_lines (dei_graph(k \<mapsto> ei_value)) f)"

definition graphfile_parser :: "string list \<Rightarrow> error + (int \<rightharpoonup> int set)" where
  "graphfile_parser f = graph_lines Map.empty f"

text \<open>
  The form of a line in the words of the specification, \<^verbatim>\<open><id>:<comma-separated ids or
  empty>\<close>: the decimal ID, a colon, the IDs joined by commas. PhysiCell writes a blank after
  the colon and a line end after the last ID, so both paddings are parameters. The
  padding after the colon is read by \<^verbatim>\<open>int()\<close> together with the first ID, the line end is
  removed by \<^verbatim>\<open>str.strip()\<close>.
\<close>

fun join_comma :: "string list \<Rightarrow> string" where
  "join_comma [] = []"
| "join_comma [s] = s"
| "join_comma (s # t # ss) = s @ CHR '','' # join_comma (t # ss)"

definition adjacency_line :: "int \<Rightarrow> string \<Rightarrow> int list \<Rightarrow> string \<Rightarrow> string" where
  "adjacency_line k pad ids eol = py_str k @ CHR '':'' # pad @ join_comma (map py_str ids) @ eol"

text \<open>A string of white space only, for \<^verbatim>\<open>str.strip()\<close> and for \<^verbatim>\<open>int()\<close>.\<close>

definition blank :: "string \<Rightarrow> bool" where
  "blank s = list_all py_isspace s"

definition int_blank :: "string \<Rightarrow> bool" where
  "int_blank s = list_all int_isspace s"

text \<open>
  A file of such lines is given by its entries (ID, padding, IDs, line end); \<open>entry_of\<close>
  is the dictionary item the specification expects for a line. In a well padded entry
  the padding is white space of \<^verbatim>\<open>int()\<close>, the line end is white space of \<^verbatim>\<open>str.strip()\<close>,
  and every ID is written with at most 4300 characters, which \<^verbatim>\<open>int()\<close> reads under any
  setting of its limit.
\<close>

definition line_of :: "int \<times> string \<times> int list \<times> string \<Rightarrow> string" where
  "line_of e = (case e of (k, pad, ids, eol) \<Rightarrow> adjacency_line k pad ids eol)"

definition entry_of :: "int \<times> string \<times> int list \<times> string \<Rightarrow> int \<times> int set" where
  "entry_of e = (case e of (k, pad, ids, eol) \<Rightarrow> (k, set ids))"

definition well_padded :: "int \<times> string \<times> int list \<times> string \<Rightarrow> bool" where
  "well_padded e =
     (case e of (k, pad, ids, eol) \<Rightarrow>
        int_blank pad \<and> blank eol \<and> list_all (\<lambda>i. length (py_str i) \<le> 4300) (k # ids))"

text \<open>Auxiliary notions of the proofs about decimal numerals.\<close>

definition dec_value :: "nat \<Rightarrow> string \<Rightarrow> nat" where
  "dec_value acc ds = foldl (\<lambda>a c. a * 10 + digit_val c) acc ds"

definition str_chars :: "char \<Rightarrow> bool" where
  "str_chars c = (is_digit c \<or> c = CHR ''-'')"

section \<open>The cell label schema: the label loop of \<^verbatim>\<open>TimeStep._read_xml\<close>\<close>

text \<open>The convention tables of the module, as sets of label names.\<close>

definition es_var_subs :: "string set" where
  "es_var_subs =
     {''chemotactic_sensitivities'', ''secretion_rates'', ''uptake_rates'',
      ''saturation_densities'', ''net_export_rates'', ''internalized_total_substrates'',
      ''fraction_released_at_death'', ''fraction_transferred_when_ingested''}"

definition es_var_cell :: "string set" where
  "es_var_cell =
     {''cell_adhesion_affinities'', ''live_phagocytosis_rates'', ''attack_rates'',
      ''immunogenicities'', ''fusion_rates'', ''transformation_rates''}"

definition es_var_death :: "string set" where
  "es_var_death = {''death_rates''}"

definition es_var_spatial :: "string set" where
  "es_var_spatial =
     {''migration_bias_direction'', ''motility_bias_direction'', ''motility_vector'',
      ''orientation'', ''position'', ''velocity''}"

text \<open>
  An ID-to-label dictionary (\<^verbatim>\<open>ds_substrate\<close>, \<^verbatim>\<open>ds_celltype\<close>) is an association list
  in insertion order with unique keys; \<^verbatim>\<open>d.update({k: v})\<close> is \<open>AList.update k v\<close>, which
  overwrites the value of a present key in place and appends an absent one. The keys are
  strings.

  \<^verbatim>\<open>[d[k] for k in sorted(d.keys(), key=int)]\<close>: the labels in the order of the integer
  value of their keys (a stable sort); a key that \<^verbatim>\<open>int\<close> rejects raises \<^verbatim>\<open>ValueError\<close>.
\<close>

definition sorted_labels :: "(string \<times> string) list \<Rightarrow> error + string list" where
  "sorted_labels d =
     (if list_all (\<lambda>k. py_int k \<noteq> None) (map fst d)
      then Inr (map (\<lambda>k. the (map_of d k)) (sort_key (\<lambda>k. the (py_int k)) (map fst d)))
      else Inl ValueError)"

text \<open>\<^verbatim>\<open>range(n)\<close>: empty when \<open>n \<le> 0\<close>.\<close>

definition py_range :: "int \<Rightarrow> int list" where
  "py_range n = [0 .. n - 1]"

text \<open>
  One pass of the label loop: the column names appended to \<^verbatim>\<open>ls_variable\<close> for the label
  \<^verbatim>\<open>s_variable\<close> of size \<^verbatim>\<open>i_variable\<close>, by the \<^verbatim>\<open>if\<close>/\<^verbatim>\<open>elif\<close> chain of the source. The
  unit dictionary, which the loop fills on the side, is read by no property below and is
  left out.
\<close>

definition expand_label ::
  "(string \<times> string) list \<Rightarrow> (string \<times> string) list \<Rightarrow> string \<times> int \<Rightarrow> error + string list" where
  "expand_label ds_substrate ds_celltype x_label =
     (case x_label of (s_variable, i_variable) \<Rightarrow>
        if s_variable \<in> es_var_subs then
          (if length ds_substrate > 0 then
             (case sorted_labels ds_substrate of
                Inl e \<Rightarrow> Inl e
              | Inr ls_substrate \<Rightarrow>
                  Inr (map (\<lambda>s_substrate. s_substrate @ ''_'' @ s_variable) ls_substrate))
           else Inr (map (\<lambda>i. s_variable @ ''_'' @ py_str i) (py_range i_variable)))
        else if s_variable \<in> es_var_cell then
          (if length ds_celltype > 0 then
             (case sorted_labels ds_celltype of
                Inl e \<Rightarrow> Inl e
              | Inr ls_celltype \<Rightarrow>
                  Inr (map (\<lambda>s_celltype. s_celltype @ ''_'' @ s_variable) ls_celltype))
           else Inr (map (\<lambda>i. s_variable @ ''_'' @ py_str i) (py_range i_variable)))
        else if s_variable \<in> es_var_death then
          Inr (map (\<lambda>i. s_variable @ ''_'' @ py_str i) (py_range i_variable))
        else if s_variable \<in> es_var_spatial then
          Inr (map (\<lambda>s_axis. s_variable @ s_axis) [''_x'', ''_y'', ''_z''])
        else if i_variable > 1 then
          Inr (map (\<lambda>i. s_variable @ ''_'' @ zfill 3 (py_str i)) (py_range i_variable))
        else Inr [s_variable])"

text \<open>The whole loop over the label list: \<^verbatim>\<open>ls_variable\<close>.\<close>

fun expand_labels ::
  "(string \<times> string) list \<Rightarrow> (string \<times> string) list \<Rightarrow> (string \<times> int) list
     \<Rightarrow> error + string list" where
  "expand_labels ds_substrate ds_celltype [] = Inr []"
| "expand_labels ds_substrate ds_celltype (x_label # labels) =
     (case expand_label ds_substrate ds_celltype x_label of
        Inl e \<Rightarrow> Inl e
      | Inr cols \<Rightarrow>
          (case expand_labels ds_substrate ds_celltype labels of
             Inl e \<Rightarrow> Inl e
           | Inr more \<Rightarrow> Inr (cols @ more)))"

section \<open>Loading the agent-state matrix\<close>

text \<open>
  A numeric matrix is the list of its rows, so \<^verbatim>\<open>ar.shape[0]\<close> is the length of the list
  and \<^verbatim>\<open>ar[i, :]\<close> is the \<open>i\<close>-th row; the float values are idealised as reals.
  \<^verbatim>\<open>io.loadmat(...)['cells']\<close> either delivers the matrix or raises \<^verbatim>\<open>ValueError\<close>, which
  the loader takes for the corrupt file that old PhysiCell versions write for zero cells.
\<close>

type_synonym matrix = "real list list"

datatype loadmat = Loaded matrix | LoadValueError

text \<open>\<^verbatim>\<open>np.empty([n, 0])\<close>: \<open>n\<close> rows without entries.\<close>

definition np_empty_rows :: "nat \<Rightarrow> matrix" where
  "np_empty_rows n = replicate n []"

text \<open>
  The \<^verbatim>\<open>try\<close>/\<^verbatim>\<open>except\<close> around the load, and the check of the row count against the
  column label list that follows it.
\<close>

definition load_cells :: "string list \<Rightarrow> loadmat \<Rightarrow> error + matrix" where
  "load_cells ls_variable file =
     (let ar_cell = (case file of
                       Loaded m \<Rightarrow> m
                     | LoadValueError \<Rightarrow> np_empty_rows (length ls_variable))
      in if length ar_cell \<noteq> length ls_variable then Inl SchemaMismatch else Inr ar_cell)"

text \<open>
  \<^verbatim>\<open>d_mcds['raw_cell']['data']\<close>: the dictionary from each column label to its row of the
  matrix, filled by index; a label that occurs twice keeps the later row. It is the
  table the cell dataframe is made of, one entry of a row per agent.
\<close>

definition raw_cell_data :: "string list \<Rightarrow> matrix \<Rightarrow> (string \<times> real list) list" where
  "raw_cell_data ls_variable ar_cell =
     fold (\<lambda>i_col d. AList.update (ls_variable ! i_col) (ar_cell ! i_col) d)
       [0 ..< length ls_variable] []"

section \<open>The mesh geometry: the mesh part of \<^verbatim>\<open>TimeStep._read_xml\<close>\<close>

text \<open>
  Coordinates and volumes are \<^verbatim>\<open>float64\<close> in the source and real numbers here; in the
  mesh part rounding errors, infinities and \<^verbatim>\<open>nan\<close> are outside the model.

  \<^verbatim>\<open>np.unique\<close> gives the sorted distinct values; \<^verbatim>\<open>min\<close> and \<^verbatim>\<open>max\<close> of an empty array
  raise \<^verbatim>\<open>ValueError\<close>.
\<close>

definition np_unique :: "real list \<Rightarrow> real list" where
  "np_unique xs = sort (remdups xs)"

definition np_min :: "real list \<Rightarrow> error + real" where
  "np_min xs = (case xs of [] \<Rightarrow> Inl ValueError | x # r \<Rightarrow> Inr (fold min r x))"

definition np_max :: "real list \<Rightarrow> error + real" where
  "np_max xs = (case xs of [] \<Rightarrow> Inl ValueError | x # r \<Rightarrow> Inr (fold max r x))"

definition axis_range :: "real list \<Rightarrow> error + (real \<times> real)" where
  "axis_range ar_axis =
     (case np_min ar_axis of
        Inl e \<Rightarrow> Inl e
      | Inr lo \<Rightarrow> (case np_max ar_axis of Inl e \<Rightarrow> Inl e | Inr hi \<Rightarrow> Inr (lo, hi)))"

text \<open>
  The voxel volume: the fourth row of the mesh matrix must hold one distinct value
  (\<^verbatim>\<open>len(set(ar_volume)) != 1\<close> exits); the volume is its first entry. A matrix of fewer
  than four rows raises \<^verbatim>\<open>IndexError\<close>.
\<close>

definition voxel_volume :: "matrix \<Rightarrow> error + real" where
  "voxel_volume ar_mesh_initial =
     (if length ar_mesh_initial \<le> 3 then Inl IndexError
      else (let ar_volume = ar_mesh_initial ! 3
            in if length (remdups ar_volume) \<noteq> 1 then Inl InconsistentMesh
               else Inr (ar_volume ! 0)))"

text \<open>
  The spacing of one of the first two axes: 1.0 when the range holds one value
  (\<^verbatim>\<open>len(set(tr_m_range)) == 1\<close>), else the extent over the number of steps.
\<close>

definition axis_spacing :: "real \<times> real \<Rightarrow> real list \<Rightarrow> real" where
  "axis_spacing tr_range ar_axis =
     (if fst tr_range = snd tr_range then 1
      else (snd tr_range - fst tr_range) / (real (length ar_axis) - 1))"

record mesh_geometry =
  mnp_axis :: "real list \<times> real list \<times> real list"
  mnp_range :: "(real \<times> real) \<times> (real \<times> real) \<times> (real \<times> real)"
  ijk_range :: "(int \<times> int) \<times> (int \<times> int) \<times> (int \<times> int)"
  volume :: real
  mnp_spacing :: "real \<times> real \<times> real"

text \<open>
  The mesh from the three coordinate arrays of the XML and the mesh matrix, in the order
  of the source: axes, ranges, voxel ranges, volume, spacing. The mesh grid, the bounding
  box and the voxel coordinates are read by no property below and are left out.
\<close>

definition read_mesh :: "real list \<Rightarrow> real list \<Rightarrow> real list \<Rightarrow> matrix \<Rightarrow> error + mesh_geometry" where
  "read_mesh ar_x_coor ar_y_coor ar_z_coor ar_mesh_initial =
     (let ar_m_axis = np_unique ar_x_coor;
          ar_n_axis = np_unique ar_y_coor;
          ar_p_axis = np_unique ar_z_coor
      in case axis_range ar_m_axis of Inl e \<Rightarrow> Inl e | Inr tr_m_range \<Rightarrow>
         (case axis_range ar_n_axis of Inl e \<Rightarrow> Inl e | Inr tr_n_range \<Rightarrow>
         (case axis_range ar_p_axis of Inl e \<Rightarrow> Inl e | Inr tr_p_range \<Rightarrow>
         (case voxel_volume ar_mesh_initial of Inl e \<Rightarrow> Inl e | Inr r_volume \<Rightarrow>
            (let dm = axis_spacing tr_m_range ar_m_axis;
                 dn = axis_spacing tr_n_range ar_n_axis;
                 dp = r_volume / (dm * dn)
             in Inr \<lparr> mnp_axis = (ar_m_axis, ar_n_axis, ar_p_axis),
                      mnp_range = (tr_m_range, tr_n_range, tr_p_range),
                      ijk_range = ((0, int (length ar_m_axis) - 1),
                                   (0, int (length ar_n_axis) - 1),
                                   (0, int (length ar_p_axis) - 1)),
                      volume = r_volume,
                      mnp_spacing = (dm, dn, dp) \<rparr>)))))"

section \<open>The voxel of an agent\<close>

text \<open>
  The voxel block of the loader (lines 2836 to 2846) subtracts and divides in \<^verbatim>\<open>float64\<close>
  and casts the rounded quotient to \<^verbatim>\<open>int64\<close>. The agent far outside the mesh and the
  quotient next to a tie depend on both, so this part follows the machine arithmetic.
  A finite \<^verbatim>\<open>float64\<close> is the real number it stands for; a result that is infinite or
  \<^verbatim>\<open>nan\<close> is \<open>None\<close>.

  \<open>pow2 e\<close> is the power of two with the exponent \<open>e\<close>. The exponent of a real number
  in \<^verbatim>\<open>float64\<close> is the largest \<open>e\<close> from -1022 to 1023 with \<open>pow2 e\<close> at most its
  magnitude, and -1022 for the subnormal numbers and zero; it is found by bisection, for
  which eleven steps are enough.
\<close>

definition pow2 :: "int \<Rightarrow> real" where
  "pow2 e = (if 0 \<le> e then 2 ^ nat e else 1 / 2 ^ nat (- e))"

fun bisect_exponent :: "nat \<Rightarrow> int \<Rightarrow> int \<Rightarrow> real \<Rightarrow> int" where
  "bisect_exponent 0 lo hi x = lo"
| "bisect_exponent (Suc n) lo hi x =
     (let mid = (lo + hi + 1) div 2
      in if pow2 mid \<le> x then bisect_exponent n mid hi x
         else bisect_exponent n lo (mid - 1) x)"

definition float_exponent :: "real \<Rightarrow> int" where
  "float_exponent x = bisect_exponent 11 (- 1022) 1023 \<bar>x\<bar>"

text \<open>
  \<^verbatim>\<open>np.round\<close> with no decimals is \<^verbatim>\<open>rint\<close>: the nearest integer, a tie going to the even
  one. Its result is a \<^verbatim>\<open>float64\<close> that holds this integer exactly.
\<close>

definition np_round :: "real \<Rightarrow> int" where
  "np_round x =
     (let f = \<lfloor>x\<rfloor>; d = x - of_int f
      in if d < 1 / 2 then f
         else if 1 / 2 < d then f + 1
         else if even f then f else f + 1)"

text \<open>
  The \<^verbatim>\<open>float64\<close> result of an operation whose exact result is \<open>x\<close> (IEEE 754, round to
  nearest, ties to even): \<open>x\<close> is rounded to a multiple of the unit in the last place of
  its exponent, which is 52 binary places below it; a rounded magnitude of
  \<open>pow2 1024\<close> or more is infinite.
\<close>

definition round_f64 :: "real \<Rightarrow> real option" where
  "round_f64 x =
     (let ulp = pow2 (float_exponent x - 52);
          r = real_of_int (np_round (x / ulp)) * ulp
      in if \<bar>r\<bar> < pow2 1024 then Some r else None)"

text \<open>
  \<^verbatim>\<open>(position - tr_range[0]) / d\<close> on finite operands: the difference, rounded, over the
  spacing, rounded; a division by zero gives an infinity or \<^verbatim>\<open>nan\<close>.
\<close>

definition float_quotient :: "real \<Rightarrow> real \<Rightarrow> real \<Rightarrow> real option" where
  "float_quotient position r_min d =
     (case round_f64 (position - r_min) of
        None \<Rightarrow> None
      | Some r \<Rightarrow> if d = 0 then None else round_f64 (r / d))"

text \<open>
  \<^verbatim>\<open>astype(int)\<close> of an integer-valued finite \<^verbatim>\<open>float64\<close>: the integer when it is an
  \<^verbatim>\<open>int64\<close>. Outside that range numpy leaves the result of the cast to the machine; the
  conversion instruction of x86-64 gives the least \<^verbatim>\<open>int64\<close>, which is the value taken here.
\<close>

definition astype_int64 :: "int \<Rightarrow> int" where
  "astype_int64 v = (if - (2 ^ 63) \<le> v \<and> v < 2 ^ 63 then v else - (2 ^ 63))"

text \<open>
  One axis: the quotient, rounded and cast, then the two masked assignments of the
  source, first the values above the range maximum, then the values below the range
  minimum. The cast of an infinite or \<^verbatim>\<open>nan\<close> quotient to an integer column raises (the
  \<^verbatim>\<open>IntCastingNaNError\<close> of pandas, a \<^verbatim>\<open>ValueError\<close>).
\<close>

definition voxel_index :: "real \<times> real \<Rightarrow> real \<Rightarrow> int \<times> int \<Rightarrow> real \<Rightarrow> error + int" where
  "voxel_index tr_range d tr_index position =
     (case float_quotient position (fst tr_range) d of
        None \<Rightarrow> Inl ValueError
      | Some q \<Rightarrow>
          (let v = astype_int64 (np_round q);
               v = (if v > snd tr_index then snd tr_index else v);
               v = (if v < fst tr_index then fst tr_index else v)
           in Inr v))"

definition cell_voxel :: "mesh_geometry \<Rightarrow> real \<times> real \<times> real \<Rightarrow> error + (int \<times> int \<times> int)" where
  "cell_voxel g position =
     (case (mnp_range g, ijk_range g, mnp_spacing g, position) of
        ((tr_m_range, tr_n_range, tr_p_range), (tr_i_range, tr_j_range, tr_k_range),
         (dm, dn, dp), (position_x, position_y, position_z)) \<Rightarrow>
          (case voxel_index tr_m_range dm tr_i_range position_x of Inl e \<Rightarrow> Inl e | Inr voxel_i \<Rightarrow>
          (case voxel_index tr_n_range dn tr_j_range position_y of Inl e \<Rightarrow> Inl e | Inr voxel_j \<Rightarrow>
          (case voxel_index tr_p_range dp tr_k_range position_z of Inl e \<Rightarrow> Inl e | Inr voxel_k \<Rightarrow>
             Inr (voxel_i, voxel_j, voxel_k)))))"

text \<open>
  The sentence of the specification, read in exact arithmetic: the position snapped to
  the nearest voxel index by the spacing, \<open>round((position - minimum) / spacing)\<close>, and
  clamped into the index range.
\<close>

definition spec_voxel_index :: "real \<times> real \<Rightarrow> real \<Rightarrow> int \<times> int \<Rightarrow> real \<Rightarrow> int" where
  "spec_voxel_index tr_range d tr_index position =
     max (fst tr_index) (min (snd tr_index) (np_round ((position - fst tr_range) / d)))"

definition spec_cell_voxel :: "mesh_geometry \<Rightarrow> real \<times> real \<times> real \<Rightarrow> int \<times> int \<times> int" where
  "spec_cell_voxel g position =
     (case (mnp_range g, ijk_range g, mnp_spacing g, position) of
        ((tr_m_range, tr_n_range, tr_p_range), (tr_i_range, tr_j_range, tr_k_range),
         (dm, dn, dp), (position_x, position_y, position_z)) \<Rightarrow>
          (spec_voxel_index tr_m_range dm tr_i_range position_x,
           spec_voxel_index tr_n_range dn tr_j_range position_y,
           spec_voxel_index tr_p_range dp tr_k_range position_z))"

text \<open>
  Scenario A of the specification: the mesh with the axes \<open>[0, 10, 20]\<close>, \<open>[0, 10]\<close>, \<open>[0]\<close>.
  Its mesh matrix has a column per voxel: the centre coordinates and the volume, here
  that of a voxel of edge 10.
\<close>

definition scenario_mesh :: matrix where
  "scenario_mesh =
     [[0, 10, 20, 0, 10, 20],
      [0, 0, 0, 10, 10, 10],
      [0, 0, 0, 0, 0, 0],
      [1000, 1000, 1000, 1000, 1000, 1000]]"

definition scenario_geometry :: mesh_geometry where
  "scenario_geometry =
     \<lparr> mnp_axis = ([0, 10, 20], [0, 10], [0]),
       mnp_range = ((0, 20), (0, 10), (0, 0)),
       ijk_range = ((0, 2), (0, 1), (0, 0)),
       volume = 1000,
       mnp_spacing = (10, 10, 10) \<rparr>"

section \<open>The dataframe accessors: \<^verbatim>\<open>get_conc_df\<close> and \<^verbatim>\<open>get_cell_df\<close>\<close>

text \<open>The coordinate column names of the module.\<close>

definition es_coor_conc :: "string set" where
  "es_coor_conc =
     {''ID'',
      ''voxel_i'', ''voxel_j'', ''voxel_k'',
      ''mesh_center_m'', ''mesh_center_n'', ''mesh_center_p'',
      ''time'', ''runtime'',
      ''xmlfile''}"

definition es_coor_cell :: "string set" where
  "es_coor_cell =
     {''ID'',
      ''voxel_i'', ''voxel_j'', ''voxel_k'',
      ''mesh_center_m'', ''mesh_center_n'', ''mesh_center_p'',
      ''position_x'', ''position_y'', ''position_z'',
      ''time'', ''runtime'',
      ''xmlfile''}"

text \<open>
  A dataframe is the name of its index and its columns in order, each a label with its
  values, one per row. The values of the index and the order of the rows are not part
  of the model: where they succeed, \<^verbatim>\<open>sort_values\<close> and \<^verbatim>\<open>reset_index\<close> permute or renumber
  rows and leave the columns as they are. In the cell dataframe \<^verbatim>\<open>ID\<close> is the index, not a
  column. The frames that the loader stores have distinct column labels; the operations
  below are those of pandas on such frames.
\<close>

datatype val = Num real | Txt string | Flag bool

record dataframe =
  index_name :: string
  columns :: "(string \<times> val list) list"

definition column_names :: "dataframe \<Rightarrow> string list" where
  "column_names df = map fst (columns df)"

text \<open>\<^verbatim>\<open>df.loc[:, s_column]\<close> for a label among the columns.\<close>

definition column_values :: "dataframe \<Rightarrow> string \<Rightarrow> val list" where
  "column_values df s_column = the (map_of (columns df) s_column)"

text \<open>\<^verbatim>\<open>df.drop(es_delete, axis=1)\<close> for labels that are all among the columns.\<close>

definition drop_columns :: "string set \<Rightarrow> dataframe \<Rightarrow> dataframe" where
  "drop_columns es_delete df = df\<lparr>columns := filter (\<lambda>c. fst c \<notin> es_delete) (columns df)\<rparr>"

text \<open>
  The filter block, which the two accessors share word for word but for their coordinate
  set: the attributes are the columns outside the coordinate set; the deletion set is the
  attributes outside \<^verbatim>\<open>keep\<close> when \<^verbatim>\<open>keep\<close> is not empty and the attributes in \<^verbatim>\<open>drop\<close>
  otherwise; for \<^verbatim>\<open>values > 1\<close> every column outside the coordinate set with fewer
  distinct values is added to it.
\<close>

definition es_delete_of :: "string set \<Rightarrow> dataframe \<Rightarrow> int \<Rightarrow> string set \<Rightarrow> string set \<Rightarrow> string set" where
  "es_delete_of es_coor df values drop' keep =
     (let es_attribute = set (column_names df) - es_coor;
          es_delete = (if keep \<noteq> {} then es_attribute - keep else es_attribute \<inter> drop')
      in if values > 1
         then es_delete \<union>
              set (filter (\<lambda>s_column. s_column \<notin> es_coor
                             \<and> int (length (remdups (column_values df s_column))) < values)
                     (column_names df))
         else es_delete)"

text \<open>
  \<^verbatim>\<open>df.sort_values(by)\<close>, as far as it can fail: the keys are looked up in their order; a
  key that names neither a column nor the index raises \<^verbatim>\<open>KeyError\<close>, a key that names both
  is ambiguous and raises \<^verbatim>\<open>ValueError\<close>, and so does a key that names more than one
  column.
\<close>

fun sort_values :: "string list \<Rightarrow> dataframe \<Rightarrow> error + dataframe" where
  "sort_values [] df = Inr df"
| "sort_values (k # by) df =
     (if k \<in> set (column_names df)
      then (if k = index_name df \<or> length (filter (\<lambda>c. c = k) (column_names df)) \<noteq> 1
            then Inl ValueError else sort_values by df)
      else if k = index_name df then sort_values by df
      else Inl KeyError)"

definition get_cell_df :: "dataframe \<Rightarrow> int \<Rightarrow> string set \<Rightarrow> string set \<Rightarrow> error + dataframe" where
  "get_cell_df df_cell values drop' keep =
     (if keep \<noteq> {} \<and> drop' \<noteq> {} then Inl KeepAndDrop
      else (let es_delete = es_delete_of es_coor_cell df_cell values drop' keep;
                df_cell = drop_columns es_delete df_cell;
                df_cell = df_cell\<lparr>columns := sort_key fst (columns df_cell)\<rparr>
            in sort_values [''ID''] df_cell))"

text \<open>
  The slice of \<^verbatim>\<open>get_conc_df\<close>: a \<^verbatim>\<open>z_slice\<close> that is no mesh centre stops the program
  under \<^verbatim>\<open>halt\<close> and is moved to the nearest centre otherwise (\<^verbatim>\<open>argmin\<close>: the first of
  the nearest); then the rows on that plane are kept.
\<close>

definition np_argmin :: "real list \<Rightarrow> nat" where
  "np_argmin xs = length (takeWhile (\<lambda>v. v \<noteq> Min (set xs)) xs)"

definition snap_z_slice :: "real list \<Rightarrow> real option \<Rightarrow> bool \<Rightarrow> error + real option" where
  "snap_z_slice ar_p_axis z_slice halt =
     (case z_slice of
        None \<Rightarrow> Inr None
      | Some z \<Rightarrow>
          if z \<in> set ar_p_axis then Inr (Some z)
          else if halt then Inl ProcessingStopped
          else if ar_p_axis = [] then Inl ValueError
          else Inr (Some (ar_p_axis ! np_argmin (map (\<lambda>a. \<bar>a - z\<bar>) ar_p_axis))))"

definition filter_z_slice :: "dataframe \<Rightarrow> real option \<Rightarrow> error + dataframe" where
  "filter_z_slice df_conc z_slice =
     (case z_slice of
        None \<Rightarrow> Inr df_conc
      | Some z \<Rightarrow>
          (case map_of (columns df_conc) ''mesh_center_p'' of
             None \<Rightarrow> Inl AttributeError
           | Some ar_p \<Rightarrow>
               Inr (df_conc\<lparr>columns :=
                      map (\<lambda>c. (fst c, map fst (filter (\<lambda>r. snd r = Num z) (zip (snd c) ar_p))))
                        (columns df_conc)\<rparr>)))"

definition get_conc_df ::
  "real list \<Rightarrow> dataframe \<Rightarrow> real option \<Rightarrow> bool \<Rightarrow> int \<Rightarrow> string set \<Rightarrow> string set
     \<Rightarrow> error + dataframe" where
  "get_conc_df ar_p_axis df_conc z_slice halt values drop' keep =
     (if keep \<noteq> {} \<and> drop' \<noteq> {} then Inl KeepAndDrop
      else (case snap_z_slice ar_p_axis z_slice halt of
              Inl e \<Rightarrow> Inl e
            | Inr z_slice \<Rightarrow>
                (case filter_z_slice df_conc z_slice of
                   Inl e \<Rightarrow> Inl e
                 | Inr df_conc \<Rightarrow>
                     (let es_delete = es_delete_of es_coor_conc df_conc values drop' keep;
                          df_conc = drop_columns es_delete df_conc
                      in case sort_values [''voxel_i'', ''voxel_j'', ''voxel_k'', ''time''] df_conc of
                           Inl e \<Rightarrow> Inl e
                         | Inr df_conc \<Rightarrow> Inr (df_conc\<lparr>index_name := ''index''\<rparr>)))))"

text \<open>
  The frames that a constructed snapshot stores. The concentration frame is built in
  \<^verbatim>\<open>_read_xml\<close> (lines 2661 to 2683) from the six voxel and mesh columns, a column per
  substrate and the columns \<^verbatim>\<open>time\<close>, \<^verbatim>\<open>runtime\<close> and \<^verbatim>\<open>xmlfile\<close>, under the index \<^verbatim>\<open>index\<close>.
\<close>

definition conc_frame_columns :: "string list \<Rightarrow> string list" where
  "conc_frame_columns ls_substrate =
     [''voxel_i'', ''voxel_j'', ''voxel_k'', ''mesh_center_m'', ''mesh_center_n'', ''mesh_center_p'']
     @ ls_substrate @ [''time'', ''runtime'', ''xmlfile'']"

definition conc_frame :: "dataframe \<Rightarrow> bool" where
  "conc_frame df =
     (let ls_column = column_names df;
          ls_substrate = take (length ls_column - 9) (List.drop 6 ls_column)
      in index_name df = ''index'' \<and> distinct ls_column
         \<and> ls_column = conc_frame_columns ls_substrate)"

text \<open>
  The cell frame is stored under the index \<^verbatim>\<open>ID\<close> (\<^verbatim>\<open>set_index('ID')\<close>, line 2972, which
  takes the column of that name away). On the way there \<^verbatim>\<open>_read_xml\<close> reads the position
  columns (line 2828), adds \<^verbatim>\<open>time\<close>, \<^verbatim>\<open>runtime\<close> and \<^verbatim>\<open>xmlfile\<close> (lines 2825 to 2827) and
  merges in the voxel columns (line 2849) and, with the concentration frame, the mesh
  centre columns (line 2939); so the stored frame has every coordinate column but \<^verbatim>\<open>ID\<close>.
\<close>

definition cell_frame :: "dataframe \<Rightarrow> bool" where
  "cell_frame df =
     (index_name df = ''ID'' \<and> distinct (column_names df) \<and> ''ID'' \<notin> set (column_names df)
      \<and> es_coor_cell - {''ID''} \<subseteq> set (column_names df))"

text \<open>
  The stored frames of a snapshot of scenario A with the substrate oxygen and two agents
  in the voxel (1, 0, 0).
\<close>

definition scenario_conc :: dataframe where
  "scenario_conc =
     \<lparr> index_name = ''index'',
       columns =
         [(''voxel_i'', [Num 0, Num 0, Num 1, Num 1, Num 2, Num 2]),
          (''voxel_j'', [Num 0, Num 1, Num 0, Num 1, Num 0, Num 1]),
          (''voxel_k'', [Num 0, Num 0, Num 0, Num 0, Num 0, Num 0]),
          (''mesh_center_m'', [Num 0, Num 0, Num 10, Num 10, Num 20, Num 20]),
          (''mesh_center_n'', [Num 0, Num 10, Num 0, Num 10, Num 0, Num 10]),
          (''mesh_center_p'', [Num 0, Num 0, Num 0, Num 0, Num 0, Num 0]),
          (''oxygen'', [Num 38, Num 38, Num 38, Num 38, Num 38, Num 38]),
          (''time'', [Num 0, Num 0, Num 0, Num 0, Num 0, Num 0]),
          (''runtime'', [Num 0, Num 0, Num 0, Num 0, Num 0, Num 0]),
          (''xmlfile'', replicate 6 (Txt ''output00000000.xml''))] \<rparr>"

definition scenario_cell :: dataframe where
  "scenario_cell =
     \<lparr> index_name = ''ID'',
       columns =
         [(''cell_type'', [Txt ''tumor'', Txt ''stroma'']),
          (''dead'', [Flag False, Flag False]),
          (''mesh_center_m'', [Num 10, Num 10]),
          (''mesh_center_n'', [Num 0, Num 0]),
          (''mesh_center_p'', [Num 0, Num 0]),
          (''oxygen'', [Num 38, Num 38]),
          (''position_x'', [Num 9, Num 11]),
          (''position_y'', [Num 4, Num 3]),
          (''position_z'', [Num 0, Num 0]),
          (''runtime'', [Num 0, Num 0]),
          (''time'', [Num 0, Num 0]),
          (''voxel_i'', [Num 1, Num 1]),
          (''voxel_j'', [Num 0, Num 0]),
          (''voxel_k'', [Num 0, Num 0]),
          (''xmlfile'', replicate 2 (Txt ''output00000000.xml''))] \<rparr>"

section \<open>The agent-type table: the \<^verbatim>\<open>ds_celltype\<close> parts of \<^verbatim>\<open>TimeStep._read_xml\<close>\<close>

text \<open>
  The loader fills the dictionary \<^verbatim>\<open>ds_celltype\<close> and sets the flag \<^verbatim>\<open>b_celltype\<close> in four
  places, in this order of the source. The two XML tables are taken as read from their
  documents: the list of (ID, name) pairs of the \<^verbatim>\<open>cell_definition\<close> nodes of the settings
  file, \<open>None\<close> when no settings file is given (\<^verbatim>\<open>settingxml\<close> is \<^verbatim>\<open>None\<close> or \<^verbatim>\<open>False\<close>), and
  the list of (ID, text) pairs of the \<^verbatim>\<open>type\<close> nodes under \<^verbatim>\<open>cell_types\<close> of the output
  file, \<open>None\<close> when that node is missing (the \<^verbatim>\<open>AttributeError\<close> the source catches).
\<close>

record celltype_state =
  ds_celltype :: "(string \<times> string) list"
  b_celltype :: bool

text \<open>A loop of \<^verbatim>\<open>d.update({k: v})\<close> over pairs.\<close>

definition update_all :: "(string \<times> string) list \<Rightarrow> (string \<times> string) list \<Rightarrow> (string \<times> string) list" where
  "update_all kvs d = fold (\<lambda>kv. AList.update (fst kv) (snd kv)) kvs d"

text \<open>The settings file, read first (lines 2399 to 2414).\<close>

definition read_settingxml :: "(string \<times> string) list option \<Rightarrow> celltype_state \<Rightarrow> celltype_state" where
  "read_settingxml settingxml st =
     (case settingxml of
        None \<Rightarrow> st
      | Some cell_definitions \<Rightarrow>
          \<lparr> ds_celltype = update_all cell_definitions (ds_celltype st), b_celltype = True \<rparr>)"

text \<open>The \<^verbatim>\<open>cell_types\<close> node of the output file, under \<^verbatim>\<open>try\<close> (lines 2703 to 2711).\<close>

definition read_cell_types :: "(string \<times> string) list option \<Rightarrow> celltype_state \<Rightarrow> celltype_state" where
  "read_cell_types cell_types st =
     (case cell_types of
        None \<Rightarrow> st
      | Some types \<Rightarrow>
          \<lparr> ds_celltype = update_all types (ds_celltype st), b_celltype = True \<rparr>)"

text \<open>
  The label sizes (lines 2714 to 2722), entered when the flag is unset. The first
  statement of the loop body reads \<^verbatim>\<open>x_label.tex\<close>, an attribute that an XML element does
  not have, so the first pass of the loop raises \<^verbatim>\<open>AttributeError\<close>, which nothing
  catches; without labels the loop body does not run.
\<close>

definition read_label_sizes :: "(string \<times> int) list \<Rightarrow> celltype_state \<Rightarrow> error + celltype_state" where
  "read_label_sizes labels st =
     (if \<not> b_celltype st
      then (case labels of [] \<Rightarrow> Inr st | x_label # _ \<Rightarrow> Inl AttributeError)
      else Inr st)"

text \<open>\<^verbatim>\<open>ls.index(x)\<close>, and \<^verbatim>\<open>int(r)\<close> for a float, which truncates towards zero.\<close>

fun py_index :: "'a \<Rightarrow> 'a list \<Rightarrow> error + nat" where
  "py_index x [] = Inl ValueError"
| "py_index x (y # ys) =
     (if y = x then Inr 0
      else (case py_index x ys of Inl e \<Rightarrow> Inl e | Inr n \<Rightarrow> Inr (Suc n)))"

definition py_trunc :: "real \<Rightarrow> int" where
  "py_trunc r = (if r < 0 then \<lceil>r\<rceil> else \<lfloor>r\<rfloor>)"

text \<open>
  The observed values (lines 2803 to 2807), entered when the flag is unset: each element
  of the set of the values in the \<^verbatim>\<open>cell_type\<close> row maps its decimal string to itself.
  A label list without \<^verbatim>\<open>cell_type\<close> raises \<^verbatim>\<open>ValueError\<close>, a matrix without that row
  \<^verbatim>\<open>IndexError\<close>.
  Python leaves the order of a set open; here it is the order of \<open>remdups\<close>, and
  the properties below read the table as a map.
\<close>

definition read_observed_types :: "string list \<Rightarrow> matrix \<Rightarrow> celltype_state \<Rightarrow> error + celltype_state" where
  "read_observed_types ls_variable ar_cell st =
     (if \<not> b_celltype st
      then (case py_index ''cell_type'' ls_variable of
              Inl e \<Rightarrow> Inl e
            | Inr i \<Rightarrow>
                if length ar_cell \<le> i then Inl IndexError
                else
                Inr \<lparr> ds_celltype =
                        update_all (map (\<lambda>r_celltype. (py_str (py_trunc r_celltype), py_str (py_trunc r_celltype)))
                                      (remdups (ar_cell ! i)))
                          (ds_celltype st),
                      b_celltype = True \<rparr>)
      else Inr st)"

text \<open>
  The four places in the order of the source, with the label loop and the load of the
  matrix between the third and the fourth.
\<close>

definition read_celltype ::
  "(string \<times> string) list option \<Rightarrow> (string \<times> string) list option \<Rightarrow> (string \<times> string) list
     \<Rightarrow> (string \<times> int) list \<Rightarrow> loadmat \<Rightarrow> error + celltype_state" where
  "read_celltype settingxml cell_types ds_substrate labels file =
     (let st = \<lparr> ds_celltype = [], b_celltype = False \<rparr>;
          st = read_settingxml settingxml st;
          st = read_cell_types cell_types st
      in case read_label_sizes labels st of Inl e \<Rightarrow> Inl e | Inr st \<Rightarrow>
         (case expand_labels ds_substrate (ds_celltype st) labels of Inl e \<Rightarrow> Inl e | Inr ls_variable \<Rightarrow>
         (case load_cells ls_variable file of Inl e \<Rightarrow> Inl e | Inr ar_cell \<Rightarrow>
            read_observed_types ls_variable ar_cell st)))"




section \<open>The accessors and the objects they return\<close>

text \<open>
  Whether a caller can reach the state of the snapshot through a returned object depends
  on which objects are shared, so objects live in a store: the address of an object is
  its position in the list of all objects. Two kinds of objects are needed, a numpy
  array with its values and a Python list with the addresses of its elements. A lookup
  that finds no object or one of the wrong kind is \<open>None\<close>; the store of a constructed
  snapshot has no such address.
\<close>

datatype pyobj = NdArray "real list" | PyList "nat list"

type_synonym store = "pyobj list"

definition alloc :: "store \<Rightarrow> pyobj \<Rightarrow> store \<times> nat" where
  "alloc h ob = (h @ [ob], length h)"

text \<open>
  \<^verbatim>\<open>list.copy()\<close> makes a new list object that holds the same element addresses;
  \<^verbatim>\<open>ndarray.copy()\<close> makes a new array object with its own values.
\<close>

definition list_copy :: "store \<Rightarrow> nat \<Rightarrow> (store \<times> nat) option" where
  "list_copy h a =
     (if a < length h
      then (case h ! a of PyList es \<Rightarrow> Some (alloc h (PyList es)) | NdArray vs \<Rightarrow> None)
      else None)"

definition ndarray_copy :: "store \<Rightarrow> nat \<Rightarrow> (store \<times> nat) option" where
  "ndarray_copy h a =
     (if a < length h
      then (case h ! a of NdArray vs \<Rightarrow> Some (alloc h (NdArray vs)) | PyList es \<Rightarrow> None)
      else None)"

text \<open>
  The entries of \<^verbatim>\<open>self.data['mesh']\<close> that the two accessors below read: the address of
  the list of the three axis arrays and the address of the array of voxel coordinates.
\<close>

record mesh_data =
  mnp_axis_at :: nat
  mnp_coordinate_at :: nat

text \<open>\<^verbatim>\<open>return self.data['mesh']['mnp_axis'].copy()\<close>, where the entry is a list of arrays.\<close>

definition get_mesh_mnp_axis :: "mesh_data \<Rightarrow> store \<Rightarrow> (store \<times> nat) option" where
  "get_mesh_mnp_axis self h = list_copy h (mnp_axis_at self)"

text \<open>\<^verbatim>\<open>return self.data['mesh']['mnp_coordinate'].copy()\<close>, where the entry is an array.\<close>

definition get_mesh_coordinate :: "mesh_data \<Rightarrow> store \<Rightarrow> (store \<times> nat) option" where
  "get_mesh_coordinate self h = ndarray_copy h (mnp_coordinate_at self)"

text \<open>What a caller can do with an address: \<^verbatim>\<open>ls[i]\<close>, \<^verbatim>\<open>ar[i] = v\<close> and reading an array.\<close>

definition list_getitem :: "store \<Rightarrow> nat \<Rightarrow> nat \<Rightarrow> nat option" where
  "list_getitem h a i =
     (if a < length h
      then (case h ! a of
              PyList es \<Rightarrow> if i < length es then Some (es ! i) else None
            | NdArray vs \<Rightarrow> None)
      else None)"

definition ndarray_setitem :: "store \<Rightarrow> nat \<Rightarrow> nat \<Rightarrow> real \<Rightarrow> store option" where
  "ndarray_setitem h a i v =
     (if a < length h
      then (case h ! a of
              NdArray vs \<Rightarrow> if i < length vs then Some (h[a := NdArray (vs[i := v])]) else None
            | PyList es \<Rightarrow> None)
      else None)"

definition ndarray_values :: "store \<Rightarrow> nat \<Rightarrow> real list option" where
  "ndarray_values h a =
     (if a < length h
      then (case h ! a of NdArray vs \<Rightarrow> Some vs | PyList es \<Rightarrow> None)
      else None)"

text \<open>
  The caller's statements \<^verbatim>\<open>lar = mcds.get_mesh_mnp_axis(); lar[0][0] = v\<close>, and then what
  the next call \<^verbatim>\<open>mcds.get_mesh_mnp_axis()[0]\<close> holds.
\<close>

definition write_first_axis :: "mesh_data \<Rightarrow> store \<Rightarrow> real \<Rightarrow> store option" where
  "write_first_axis self h v =
     (case get_mesh_mnp_axis self h of
        None \<Rightarrow> None
      | Some (h1, lar) \<Rightarrow>
          (case list_getitem h1 lar 0 of
             None \<Rightarrow> None
           | Some ar \<Rightarrow> ndarray_setitem h1 ar 0 v))"

definition read_first_axis :: "mesh_data \<Rightarrow> store \<Rightarrow> real list option" where
  "read_first_axis self h =
     (case get_mesh_mnp_axis self h of
        None \<Rightarrow> None
      | Some (h1, lar) \<Rightarrow>
          (case list_getitem h1 lar 0 of
             None \<Rightarrow> None
           | Some ar \<Rightarrow> ndarray_values h1 ar))"

text \<open>
  The same for the voxel coordinates:
  \<^verbatim>\<open>ar = mcds.get_mesh_coordinate(); ar[0] = v\<close>, then \<^verbatim>\<open>mcds.get_mesh_coordinate()\<close>.
\<close>

definition write_coordinate :: "mesh_data \<Rightarrow> store \<Rightarrow> real \<Rightarrow> store option" where
  "write_coordinate self h v =
     (case get_mesh_coordinate self h of
        None \<Rightarrow> None
      | Some (h1, ar) \<Rightarrow> ndarray_setitem h1 ar 0 v)"

definition read_coordinate :: "mesh_data \<Rightarrow> store \<Rightarrow> real list option" where
  "read_coordinate self h =
     (case get_mesh_coordinate self h of
        None \<Rightarrow> None
      | Some (h1, ar) \<Rightarrow> ndarray_values h1 ar)"

text \<open>
  The store of the mesh of scenario A: the three axis arrays, the list of them and the
  voxel coordinates (flattened).
\<close>

definition scenario_store :: store where
  "scenario_store =
     [NdArray [0, 10, 20], NdArray [0, 10], NdArray [0], PyList [0, 1, 2],
      NdArray [0, 10, 20, 0, 10, 20, 0, 0, 0, 10, 10, 10, 0, 0, 0, 0, 0, 0]]"

definition scenario_mesh_data :: mesh_data where
  "scenario_mesh_data = \<lparr> mnp_axis_at = 3, mnp_coordinate_at = 4 \<rparr>"

section \<open>Verification\<close>

subsection \<open>Decimal numerals, stripping and splitting\<close>


lemma digit_char_props:
  "d < 10 \<Longrightarrow> is_digit (digit_char d)"
  "d < 10 \<Longrightarrow> digit_val (digit_char d) = d"
  by (simp_all add: is_digit_def digit_val_def digit_char_def)

lemma int_isspace_py: "int_isspace c \<Longrightarrow> py_isspace c"
  by (auto simp: int_isspace_def py_isspace_def Let_def)

lemma is_digit_chars:
  "is_digit c \<Longrightarrow> \<not> py_isspace c"
  "is_digit c \<Longrightarrow> c \<noteq> CHR '':''"
  "is_digit c \<Longrightarrow> c \<noteq> CHR '',''"
  "is_digit c \<Longrightarrow> c \<noteq> CHR ''-''"
  "is_digit c \<Longrightarrow> c \<noteq> CHR ''+''"
  "is_digit c \<Longrightarrow> c \<noteq> CHR ''_''"
  by (auto simp: is_digit_def py_isspace_def Let_def)

lemma str_nat_digits: "list_all is_digit (str_nat n)"
proof (induction n rule: str_nat.induct)
  case (1 n)
  show ?case
  proof (cases "n < 10")
    case True
    then show ?thesis by (simp add: str_nat.simps [of n] digit_char_props)
  next
    case False
    with 1 show ?thesis by (simp add: str_nat.simps [of n] digit_char_props)
  qed
qed

lemma str_nat_nonempty: "str_nat n \<noteq> []"
  by (subst str_nat.simps) simp


lemma parse_digits_all:
  "list_all is_digit ds \<Longrightarrow> parse_digits acc ds = Some (dec_value acc ds)"
  by (induction acc ds rule: parse_digits.induct) (simp_all add: dec_value_def)

lemma dec_value_str_nat: "dec_value 0 (str_nat n) = n"
proof (induction n rule: str_nat.induct)
  case (1 n)
  show ?case
  proof (cases "n < 10")
    case True
    then show ?thesis by (simp add: str_nat.simps [of n] digit_char_props dec_value_def)
  next
    case False
    with 1 have "dec_value 0 (str_nat (n div 10)) = n div 10" by simp
    with False show ?thesis
      by (simp add: str_nat.simps [of n] digit_char_props dec_value_def)
  qed
qed

lemma parse_nat_str_nat: "parse_nat (str_nat n) = Some n"
proof -
  obtain c cs where s: "str_nat n = c # cs"
    using str_nat_nonempty [of n] by (cases "str_nat n") auto
  have d: "list_all is_digit (c # cs)" using str_nat_digits [of n] s by simp
  have "parse_nat (c # cs) = Some (dec_value (digit_val c) cs)"
    using d by (simp add: parse_nat_def parse_digits_all)
  also have "dec_value (digit_val c) cs = dec_value 0 (c # cs)"
    by (simp add: dec_value_def)
  finally show ?thesis using s dec_value_str_nat [of n] by simp
qed


lemma dropWhile_spaces: "list_all P l \<Longrightarrow> dropWhile P (l @ s) = dropWhile P s"
  by (induction l) auto

lemma dropWhile_spaces_Nil: "list_all P l \<Longrightarrow> dropWhile P l = []"
  by (induction l) auto

lemma strip_core:
  assumes "s \<noteq> []" "\<not> P (hd s)" "\<not> P (last s)"
    and "list_all P l" "list_all P r"
  shows "rev (dropWhile P (rev (dropWhile P (l @ s @ r)))) = s"
proof -
  obtain c cs where s: "s = c # cs" using assms(1) by (cases s) auto
  have "dropWhile P (l @ s @ r) = dropWhile P (s @ r)"
    using assms(4) by (rule dropWhile_spaces)
  also have "\<dots> = s @ r" using assms(2) s by simp
  finally have 1: "dropWhile P (l @ s @ r) = s @ r" .
  obtain bs b where t: "s = bs @ [b]" using assms(1) by (cases s rule: rev_cases) auto
  have b: "\<not> P b" using assms(3) t by simp
  have "list_all P (rev r)" using assms(5) by (simp add: list_all_iff)
  then have "dropWhile P (rev r @ b # rev bs) = dropWhile P (b # rev bs)"
    by (rule dropWhile_spaces)
  then have "dropWhile P (rev (s @ r)) = b # rev bs"
    using b t by simp
  then show ?thesis using 1 t by simp
qed

lemma py_strip_core:
  assumes "s \<noteq> []" "\<not> py_isspace (hd s)" "\<not> py_isspace (last s)"
    and "list_all py_isspace l" "list_all py_isspace r"
  shows "py_strip (l @ s @ r) = s"
  unfolding py_strip_def using assms by (rule strip_core)

lemma int_strip_core:
  assumes "s \<noteq> []" "\<not> int_isspace (hd s)" "\<not> int_isspace (last s)"
    and "list_all int_isspace l" "list_all int_isspace r"
  shows "int_strip (l @ s @ r) = s"
  unfolding int_strip_def using assms by (rule strip_core)

lemma py_strip_all_space: "list_all py_isspace s \<Longrightarrow> py_strip s = []"
  by (simp add: py_strip_def dropWhile_spaces_Nil)

lemma py_split_none: "c \<notin> set s \<Longrightarrow> py_split c s = [s]"
  by (induction s) auto

lemma py_split_first: "c \<notin> set a \<Longrightarrow> py_split c (a @ c # b) = a # py_split c b"
  by (induction a) auto


lemma py_str_chars: "list_all str_chars (py_str i)"
  using str_nat_digits [of "nat i"] str_nat_digits [of "nat (- i)"]
  by (auto simp: py_str_def str_chars_def list_all_iff)

lemma str_chars_not:
  "str_chars c \<Longrightarrow> \<not> py_isspace c"
  "str_chars c \<Longrightarrow> c \<noteq> CHR '':''"
  "str_chars c \<Longrightarrow> c \<noteq> CHR '',''"
  by (auto simp: str_chars_def is_digit_def py_isspace_def Let_def)

lemma py_str_nonempty: "py_str i \<noteq> []"
  by (simp add: py_str_def str_nat_nonempty)

lemma py_str_ends:
  "\<not> py_isspace (hd (py_str i))" "\<not> py_isspace (last (py_str i))"
  using py_str_chars [of i] py_str_nonempty [of i] str_chars_not(1)
  by (auto simp: list_all_iff)

lemma py_str_int_ends:
  "\<not> int_isspace (hd (py_str i))" "\<not> int_isspace (last (py_str i))"
  using py_str_ends [of i] int_isspace_py by blast+


lemma py_int_py_str:
  assumes "list_all int_isspace l" "list_all int_isspace r"
  shows "py_int (l @ py_str i @ r) = Some i"
proof -
  have st: "int_strip (l @ py_str i @ r) = py_str i"
    using assms py_str_nonempty py_str_int_ends by (intro int_strip_core) auto
  show ?thesis
  proof (cases "i < 0")
    case True
    then have "int_strip (l @ py_str i @ r) = CHR ''-'' # str_nat (nat (- i))"
      using st by (simp add: py_str_def)
    then show ?thesis using True
      by (simp add: py_int_def parse_nat_str_nat)
  next
    case False
    obtain c cs where s: "str_nat (nat i) = c # cs"
      using str_nat_nonempty [of "nat i"] by (cases "str_nat (nat i)") auto
    have "is_digit c" using str_nat_digits [of "nat i"] s by simp
    then have "c \<noteq> CHR ''-''" "c \<noteq> CHR ''+''" by (auto dest: is_digit_chars)
    moreover have "parse_nat (c # cs) = Some (nat i)"
      using parse_nat_str_nat [of "nat i"] s by simp
    moreover have "int_strip (l @ py_str i @ r) = c # cs"
      using st False s by (simp add: py_str_def)
    ultimately show ?thesis using False
      by (simp add: py_int_def)
  qed
qed


lemma join_comma_prefix: "join_comma ((p @ x) # xs) = p @ join_comma (x # xs)"
  by (cases xs) auto

lemma split_join_comma:
  "\<forall>s \<in> set (x # xs). CHR '','' \<notin> set s \<Longrightarrow> py_split CHR '','' (join_comma (x # xs)) = x # xs"
proof (induction xs arbitrary: x)
  case Nil
  then show ?case by (simp add: py_split_none)
next
  case (Cons y ys)
  then have "py_split CHR '','' (join_comma (y # ys)) = y # ys" by simp
  moreover have "CHR '','' \<notin> set x" using Cons.prems by simp
  ultimately show ?case by (simp add: py_split_first)
qed

lemma int_all_py_str: "int_all (map py_str ids) = Inr ids"
proof (induction ids)
  case Nil
  show ?case by simp
next
  case (Cons i ids)
  have "py_int (py_str i) = Some i" using py_int_py_str [of "[]" "[]" i] by simp
  with Cons show ?case by simp
qed

lemma py_str_no_comma: "CHR '','' \<notin> set (py_str i)"
  using py_str_chars [of i] str_chars_not(3) by (auto simp: list_all_iff)

lemma py_str_no_colon: "CHR '':'' \<notin> set (py_str i)"
  using py_str_chars [of i] str_chars_not(2) by (auto simp: list_all_iff)

lemma space_not_sep:
  "py_isspace c \<Longrightarrow> c \<noteq> CHR '':''" "py_isspace c \<Longrightarrow> c \<noteq> CHR '',''"
  by (auto simp: py_isspace_def Let_def)

lemma int_all_padded:
  assumes "list_all int_isspace pad"
  shows "int_all (py_split CHR '','' (pad @ join_comma (map py_str (i # ids)))) = Inr (i # ids)"
proof -
  have "pad @ join_comma (map py_str (i # ids)) = join_comma ((pad @ py_str i) # map py_str ids)"
    by (simp add: join_comma_prefix)
  moreover have "\<forall>s \<in> set ((pad @ py_str i) # map py_str ids). CHR '','' \<notin> set s"
    using assms py_str_no_comma space_not_sep(2) int_isspace_py by (auto simp: list_all_iff)
  ultimately have "py_split CHR '','' (pad @ join_comma (map py_str (i # ids)))
      = (pad @ py_str i) # map py_str ids"
    using split_join_comma by metis
  moreover have "py_int (pad @ py_str i) = Some i"
    using py_int_py_str [OF assms, of "[]" i] by simp
  ultimately show ?thesis by (simp add: int_all_py_str)
qed

lemma join_comma_chars:
  "list_all (\<lambda>c. str_chars c \<or> c = CHR '','') (join_comma (map py_str ids))"
proof (induction ids rule: induct_list012)
  case 1
  show ?case by simp
next
  case (2 i)
  show ?case using py_str_chars [of i] by (auto simp: list_all_iff)
next
  case (3 i j ids)
  then show ?case using py_str_chars [of i] by (auto simp: list_all_iff)
qed

lemma join_comma_last:
  "ids \<noteq> [] \<Longrightarrow> join_comma (map py_str ids) \<noteq> [] \<and> \<not> py_isspace (last (join_comma (map py_str ids)))"
proof (induction ids rule: induct_list012)
  case 1
  then show ?case by simp
next
  case (2 i)
  show ?case using py_str_nonempty [of i] py_str_ends(2) [of i] by simp
next
  case (3 i j ids)
  then show ?case by simp
qed

lemma join_comma_hd:
  "ids \<noteq> [] \<Longrightarrow> \<not> py_isspace (hd (join_comma (map py_str ids)))"
proof (cases ids)
  case Nil
  assume "ids \<noteq> []" with Nil show ?thesis by simp
next
  case (Cons i rest)
  have "join_comma (map py_str ids) = py_str i @ join_comma ([] # map py_str rest)"
    using Cons join_comma_prefix [of "py_str i" "[]" "map py_str rest"] by simp
  then show ?thesis using py_str_nonempty [of i] py_str_ends(1) [of i] by simp
qed

lemma parse_line_adjacency:
  assumes ipad: "list_all int_isspace pad" and eol: "list_all py_isspace eol"
  shows "parse_line (adjacency_line k pad ids eol) = Inr (k, set ids)"
proof -
  have pad: "list_all py_isspace pad"
    using ipad int_isspace_py by (auto simp: list_all_iff)
  have key: "py_int (py_str k) = Some k" using py_int_py_str [of "[]" "[]" k] by simp
  show ?thesis
  proof (cases ids)
    case Nil
    have "py_strip ([] @ (py_str k @ [CHR '':'']) @ (pad @ eol)) = py_str k @ [CHR '':'']"
      using pad eol py_str_nonempty [of k] py_str_ends(1) [of k]
      by (intro py_strip_core) (auto simp: py_isspace_def)
    then have st: "py_strip (adjacency_line k pad ids eol) = py_str k @ [CHR '':'']"
      using Nil by (simp add: adjacency_line_def)
    have "py_split CHR '':'' (py_str k @ [CHR '':'']) = [py_str k, []]"
      using py_str_no_colon [of k] by (simp add: py_split_first)
    then show ?thesis using st Nil key
      by (simp add: parse_line_def py_strip_def)
  next
    case (Cons i rest)
    let ?body = "join_comma (map py_str ids)"
    have ne: "ids \<noteq> []" using Cons by simp
    have body: "?body \<noteq> []" "\<not> py_isspace (last ?body)" "\<not> py_isspace (hd ?body)"
      using join_comma_last [OF ne] join_comma_hd [OF ne] by auto
    let ?s = "py_str k @ CHR '':'' # pad @ ?body"
    have "py_strip ([] @ ?s @ eol) = ?s"
      using eol py_str_nonempty [of k] py_str_ends(1) [of k] body
      by (intro py_strip_core) auto
    then have st: "py_strip (adjacency_line k pad ids eol) = ?s"
      by (simp add: adjacency_line_def)
    have "CHR '':'' \<notin> set ?body"
      using join_comma_chars [of ids] str_chars_not(2) by (auto simp: list_all_iff)
    moreover have "CHR '':'' \<notin> set pad"
      using pad space_not_sep(1) by (auto simp: list_all_iff)
    ultimately have sp: "py_split CHR '':'' ?s = [py_str k, pad @ ?body]"
      using py_str_no_colon [of k] by (simp add: py_split_first py_split_none)
    have "py_strip (pad @ ?body @ []) = ?body"
      using pad body by (intro py_strip_core) auto
    then have len: "length (py_strip (pad @ ?body)) \<noteq> 0" using body(1) by simp
    have ia: "int_all (py_split CHR '','' (pad @ ?body)) = Inr ids"
      using int_all_padded [OF ipad, of i rest] Cons by simp
    show ?thesis using st sp len ia key
      by (simp add: parse_line_def)
  qed
qed

subsection \<open>The graph decoder\<close>

lemma graph_lines_adjacency:
  "list_all well_padded es \<Longrightarrow>
   graph_lines m (map line_of es) = Inr (m ++ map_of (rev (map entry_of es)))"
proof (induction es arbitrary: m)
  case Nil
  show ?case by simp
next
  case (Cons e es)
  obtain k pad ids eol where e: "e = (k, pad, ids, eol)" by (cases e) auto
  have pl: "parse_line (line_of e) = Inr (k, set ids)"
    using Cons.prems e
    by (simp add: line_of_def well_padded_def blank_def int_blank_def parse_line_adjacency)
  have "graph_lines (m(k \<mapsto> set ids)) (map line_of es)
      = Inr (m(k \<mapsto> set ids) ++ map_of (rev (map entry_of es)))"
    using Cons by simp
  moreover have "m(k \<mapsto> set ids) ++ map_of (rev (map entry_of es))
      = m ++ map_of (rev (map entry_of (e # es)))"
    by (rule ext) (simp add: e entry_of_def map_add_def split: option.splits)
  ultimately show ?case using pl by simp
qed

text \<open>
  Claim C8. For every adjacency file whose lines have the form
  \<^verbatim>\<open><id>:<comma-separated ids or empty>\<close> (where blanks and the other white space of
  \<^verbatim>\<open>int()\<close> may follow the colon, white space may end the line and no ID is longer than
  4300 characters), \<open>graphfile_parser\<close> returns the dictionary that maps the integer ID
  of each line to the set of the integer IDs listed on it, the empty set when the
  right-hand side is empty; when an ID heads several lines, the last one stands. The line
  \<^verbatim>\<open>5: 2,7\<close> parses to \<open>{5: {2, 7}}\<close> and the line \<^verbatim>\<open>6:\<close> to \<open>{6: {}}\<close>.
\<close>

theorem graphfile_parser_adjacency:
  "(list_all well_padded es \<longrightarrow>
      graphfile_parser (map line_of es) = Inr (map_of (rev (map entry_of es))))
   \<and> graphfile_parser [''5: 2,7''] = Inr [5 \<mapsto> {2, 7}]
   \<and> graphfile_parser [''6:''] = Inr [6 \<mapsto> {}]"
proof (intro conjI impI)
  assume "list_all well_padded es"
  then show "graphfile_parser (map line_of es) = Inr (map_of (rev (map entry_of es)))"
    unfolding graphfile_parser_def by (simp add: graph_lines_adjacency)
next
  have "parse_line ''5: 2,7'' = Inr (5, {2, 7})" by code_simp
  then show "graphfile_parser [''5: 2,7''] = Inr [5 \<mapsto> {2, 7}]"
    unfolding graphfile_parser_def graph_lines.simps by simp
next
  have "parse_line ''6:'' = Inr (6, {})" by code_simp
  then show "graphfile_parser [''6:''] = Inr [6 \<mapsto> {}]"
    unfolding graphfile_parser_def graph_lines.simps by simp
qed

text \<open>
  The theorem at a file of three lines with line ends, the third one heading with the ID
  of the first.
\<close>

theorem graphfile_parser_adjacency_witness:
  "graphfile_parser [''5: 2,7'' @ [CHR 0x0A], ''6: '' @ [CHR 0x0A], ''5:'' @ [CHR 0x0A]]
     = Inr [6 \<mapsto> {}, 5 \<mapsto> {}]"
proof -
  let ?es = "[(5, '' '', [2, 7], [CHR 0x0A]), (6, '' '', [], [CHR 0x0A]), (5, [], [], [CHR 0x0A])]
              :: (int \<times> string \<times> int list \<times> string) list"
  have wp: "list_all well_padded ?es" by code_simp
  have ls: "map line_of ?es = [''5: 2,7'' @ [CHR 0x0A], ''6: '' @ [CHR 0x0A], ''5:'' @ [CHR 0x0A]]"
    by code_simp
  have mo: "map_of (rev (map entry_of ?es)) = [6 \<mapsto> {}, 5 \<mapsto> {}]"
    by (auto simp: entry_of_def fun_eq_iff)
  have "graphfile_parser (map line_of ?es) = Inr (map_of (rev (map entry_of ?es)))"
    using graphfile_parser_adjacency [of ?es] wp by blast
  then show ?thesis unfolding ls mo .
qed

subsection \<open>The cell label schema\<close>





subsection \<open>The agent-state matrix\<close>

text \<open>
  Claim C2. The load of the agent-state matrix succeeds only when the number of rows of
  the matrix equals the length of the expanded column label list; a loaded matrix of any
  other row count aborts the load with the fatal error, and one of that row count is
  accepted as it is.
\<close>

theorem load_cells_row_count:
  "(load_cells ls_variable file = Inr ar_cell \<longrightarrow> length ar_cell = length ls_variable)
   \<and> (file = Loaded m \<and> length m \<noteq> length ls_variable \<longrightarrow>
        load_cells ls_variable file = Inl SchemaMismatch)
   \<and> (file = Loaded m \<and> length m = length ls_variable \<longrightarrow>
        load_cells ls_variable file = Inr m)"
  by (auto simp: load_cells_def Let_def split: loadmat.splits if_splits)

text \<open>Two column labels against a matrix of two rows, and against a matrix of one row.\<close>

theorem load_cells_row_count_witness:
  "load_cells [''ID'', ''position_x''] (Loaded [[0, 1], [5, 7]]) = Inr [[0, 1], [5, 7]]
   \<and> length [[0, 1], [5, 7 :: real]] = length [''ID'', ''position_x'']
   \<and> load_cells [''ID'', ''position_x''] (Loaded [[0, 1]]) = Inl SchemaMismatch"
proof -
  have a: "load_cells [''ID'', ''position_x''] (Loaded [[0, 1], [5, 7]]) = Inr [[0, 1], [5, 7]]"
    using load_cells_row_count
      [of "[''ID'', ''position_x'']" "Loaded [[0, 1], [5, 7]]" "[[0, 1], [5, 7]]" "[[0, 1], [5, 7]]"]
    by simp
  then have b: "length [[0, 1], [5, 7 :: real]] = length [''ID'', ''position_x'']"
    using load_cells_row_count
      [of "[''ID'', ''position_x'']" "Loaded [[0, 1], [5, 7]]" "[[0, 1], [5, 7]]" "[[0, 1], [5, 7]]"]
    by blast
  have c: "load_cells [''ID'', ''position_x''] (Loaded [[0, 1]]) = Inl SchemaMismatch"
    using load_cells_row_count
      [of "[''ID'', ''position_x'']" "Loaded [[0, 1]]" "[]" "[[0, 1]]"]
    by simp
  from a b c show ?thesis by blast
qed

lemma raw_cell_fold_keys:
  "n \<le> length ls \<Longrightarrow>
   fst ` set (fold (\<lambda>i d. AList.update (ls ! i) (ar ! i) d) [0 ..< n] []) = set (take n ls)"
proof (induction n)
  case 0
  show ?case by simp
next
  case (Suc n)
  then have "set (take (Suc n) ls) = insert (ls ! n) (set (take n ls))"
    by (simp add: take_Suc_conv_app_nth)
  with Suc show ?case by (simp add: dom_update)
qed

lemma update_set_subset: "set (AList.update k v al) \<subseteq> insert (k, v) (set al)"
  by (induction al) auto

lemma raw_cell_fold_rows:
  "(c, row) \<in> set (fold (\<lambda>i d. AList.update (ls ! i) (ar ! i) d) [0 ..< n] [])
   \<Longrightarrow> \<exists>i < n. row = ar ! i"
proof (induction n arbitrary: c row)
  case 0
  then show ?case by simp
next
  case (Suc n)
  let ?d = "fold (\<lambda>i d. AList.update (ls ! i) (ar ! i) d) [0 ..< n] []"
  have "(c, row) \<in> set (AList.update (ls ! n) (ar ! n) ?d)" using Suc.prems by simp
  then have "(c, row) = (ls ! n, ar ! n) \<or> (c, row) \<in> set ?d"
    using update_set_subset [of "ls ! n" "ar ! n" ?d] by auto
  then show ?case using Suc.IH less_Suc_eq by auto
qed

lemma raw_cell_fold_distinct:
  "distinct (map fst (fold (\<lambda>i d. AList.update (ls ! i) (ar ! i) d) [0 ..< n] []))"
  by (induction n) (simp_all add: distinct_update)

text \<open>
  Claim C3. When the matrix file is the corrupt one (the load raises \<^verbatim>\<open>ValueError\<close>), the
  load does not fail: the matrix is replaced by one with a row per expanded column label
  and no entry in any row, which passes the row count check; the raw cell table made of
  it has exactly the expanded column labels as its columns, each once, and every column
  is empty, that is, the table has zero agents.
\<close>

theorem corrupt_cells_zero_rows:
  "load_cells ls_variable LoadValueError = Inr (np_empty_rows (length ls_variable))
   \<and> fst ` set (raw_cell_data ls_variable (np_empty_rows (length ls_variable))) = set ls_variable
   \<and> distinct (map fst (raw_cell_data ls_variable (np_empty_rows (length ls_variable))))
   \<and> (\<forall>(c, row) \<in> set (raw_cell_data ls_variable (np_empty_rows (length ls_variable))). row = [])"
proof (intro conjI)
  show "load_cells ls_variable LoadValueError = Inr (np_empty_rows (length ls_variable))"
    by (simp add: load_cells_def np_empty_rows_def)
  show "fst ` set (raw_cell_data ls_variable (np_empty_rows (length ls_variable))) = set ls_variable"
    unfolding raw_cell_data_def using raw_cell_fold_keys [of "length ls_variable" ls_variable] by simp
  show "distinct (map fst (raw_cell_data ls_variable (np_empty_rows (length ls_variable))))"
    unfolding raw_cell_data_def by (rule raw_cell_fold_distinct)
  show "\<forall>(c, row) \<in> set (raw_cell_data ls_variable (np_empty_rows (length ls_variable))). row = []"
    unfolding raw_cell_data_def
    by (auto dest!: raw_cell_fold_rows simp: np_empty_rows_def)
qed

text \<open>The corrupt file under a schema of three columns.\<close>

theorem corrupt_cells_zero_rows_witness:
  "load_cells [''ID'', ''position_x'', ''position_y''] LoadValueError = Inr [[], [], []]
   \<and> raw_cell_data [''ID'', ''position_x'', ''position_y''] [[], [], []]
       = [(''ID'', []), (''position_x'', []), (''position_y'', [])]"
proof -
  have n: "np_empty_rows (length [''ID'', ''position_x'', ''position_y'']) = [[], [], []]"
    by (simp add: np_empty_rows_def)
  have r: "raw_cell_data [''ID'', ''position_x'', ''position_y''] [[], [], []]
       = [(''ID'', []), (''position_x'', []), (''position_y'', [])]"
    by (simp add: raw_cell_data_def upt_rec)
  show ?thesis
    using corrupt_cells_zero_rows [of "[''ID'', ''position_x'', ''position_y'']"] r
    unfolding n by blast
qed

subsection \<open>The voxel volume\<close>

lemma np_min_Min: "xs \<noteq> [] \<Longrightarrow> np_min xs = Inr (Min (set xs))"
proof (cases xs)
  case Nil
  assume "xs \<noteq> []" with Nil show ?thesis by simp
next
  case (Cons a r)
  then show ?thesis using Min.set_eq_fold [of a r] by (simp add: np_min_def)
qed

lemma np_max_Max: "xs \<noteq> [] \<Longrightarrow> np_max xs = Inr (Max (set xs))"
proof (cases xs)
  case Nil
  assume "xs \<noteq> []" with Nil show ?thesis by simp
next
  case (Cons a r)
  then show ?thesis using Max.set_eq_fold [of a r] by (simp add: np_max_def)
qed

lemma np_unique_props:
  "set (np_unique xs) = set xs" "length (np_unique xs) = card (set xs)"
  by (simp_all add: np_unique_def length_remdups_card_conv)

lemma np_unique_Nil: "np_unique xs = [] \<longleftrightarrow> xs = []"
  using np_unique_props(1) [of xs] by (metis set_empty)

lemma axis_range_unique:
  "axis_range (np_unique xs) = Inr tr \<longleftrightarrow> xs \<noteq> [] \<and> tr = (Min (set xs), Max (set xs))"
proof (cases "xs = []")
  case True
  then show ?thesis by (simp add: axis_range_def np_unique_def np_min_def)
next
  case False
  then have "np_unique xs \<noteq> []" by (simp add: np_unique_Nil)
  then show ?thesis
    using False by (auto simp: axis_range_def np_min_Min np_max_Max np_unique_props)
qed

lemma single_distinct:
  "length (remdups xs) = Suc 0 \<longleftrightarrow> xs \<noteq> [] \<and> set xs = {xs ! 0}"
proof
  assume a: "length (remdups xs) = Suc 0"
  then have c: "card (set xs) = 1" by (simp add: length_remdups_card_conv)
  then obtain v where v: "set xs = {v}" by (auto simp: card_1_singleton_iff)
  then have ne: "xs \<noteq> []" by auto
  then have "xs ! 0 \<in> set xs" by (cases xs) auto
  with v ne show "xs \<noteq> [] \<and> set xs = {xs ! 0}" by auto
next
  assume "xs \<noteq> [] \<and> set xs = {xs ! 0}"
  then have "card (set xs) = 1" by (metis is_singletonI is_singleton_altdef)
  then show "length (remdups xs) = Suc 0" by (simp add: length_remdups_card_conv)
qed

lemma voxel_volume_Inr:
  "voxel_volume m = Inr v \<longleftrightarrow> 3 < length m \<and> m ! 3 \<noteq> [] \<and> set (m ! 3) = {v}"
proof -
  have "set (m ! 3) = {v} \<Longrightarrow> m ! 3 \<noteq> [] \<Longrightarrow> m ! 3 ! 0 = v"
    by (cases "m ! 3") auto
  then show ?thesis
    by (auto simp: voxel_volume_def Let_def single_distinct)
qed

text \<open>
  Claim C7, as amended. The mesh load aborts with the fatal error of the volume check if
  and only if the axes are not empty, the mesh matrix has a fourth row and that row does
  not hold exactly one distinct value: more than one, or none at all. On success the
  voxel volume of the snapshot is the single distinct value of the row.
\<close>

theorem voxel_volume_single_value:
  "(voxel_volume m = Inl InconsistentMesh \<longleftrightarrow> 3 < length m \<and> card (set (m ! 3)) \<noteq> 1)
   \<and> (voxel_volume m = Inr v \<longrightarrow> set (m ! 3) = {v})
   \<and> (3 < length m \<and> card (set (m ! 3)) = 1 \<longrightarrow> voxel_volume m = Inr (m ! 3 ! 0))
   \<and> (read_mesh x y z m = Inr g \<longrightarrow> set (m ! 3) = {volume g})
   \<and> (read_mesh x y z m = Inl InconsistentMesh \<longleftrightarrow>
        x \<noteq> [] \<and> y \<noteq> [] \<and> z \<noteq> [] \<and> 3 < length m \<and> card (set (m ! 3)) \<noteq> 1)"
proof (intro conjI impI)
  show "voxel_volume m = Inl InconsistentMesh \<longleftrightarrow> 3 < length m \<and> card (set (m ! 3)) \<noteq> 1"
    by (simp add: voxel_volume_def Let_def length_remdups_card_conv)
  show "set (m ! 3) = {v}" if "voxel_volume m = Inr v"
    using that by (simp add: voxel_volume_Inr)
  show "voxel_volume m = Inr (m ! 3 ! 0)" if "3 < length m \<and> card (set (m ! 3)) = 1"
    using that by (simp add: voxel_volume_def Let_def length_remdups_card_conv)
  show "set (m ! 3) = {volume g}" if "read_mesh x y z m = Inr g"
  proof -
    from that have "voxel_volume m = Inr (volume g)"
      by (auto simp: read_mesh_def Let_def split: sum.splits)
    then show ?thesis by (simp add: voxel_volume_Inr)
  qed
  show "read_mesh x y z m = Inl InconsistentMesh \<longleftrightarrow>
        x \<noteq> [] \<and> y \<noteq> [] \<and> z \<noteq> [] \<and> 3 < length m \<and> card (set (m ! 3)) \<noteq> 1"
  proof -
    have e: "axis_range (np_unique xs) = Inl e \<longleftrightarrow> xs = [] \<and> e = ValueError" for xs e
    proof (cases "xs = []")
      case True
      then show ?thesis by (auto simp: axis_range_def np_unique_def np_min_def)
    next
      case False
      then have "axis_range (np_unique xs) = Inr (Min (set xs), Max (set xs))"
        by (simp add: axis_range_unique)
      then show ?thesis using False by simp
    qed
    have v: "voxel_volume m = Inl InconsistentMesh \<longleftrightarrow> 3 < length m \<and> card (set (m ! 3)) \<noteq> 1"
      by (simp add: voxel_volume_def Let_def length_remdups_card_conv)
    show ?thesis
      unfolding v [symmetric]
      by (auto simp: read_mesh_def Let_def e axis_range_unique split: sum.splits)
  qed
qed

text \<open>The mesh of scenario A, and a mesh matrix of two voxels with the volumes 8 and 9.\<close>

theorem voxel_volume_single_value_witness:
  "read_mesh [0, 10, 20] [0, 10] [0] scenario_mesh = Inr scenario_geometry
   \<and> set (scenario_mesh ! 3) = {1000}
   \<and> voxel_volume [[0, 1], [0, 0], [0, 0], [8, 9]] = Inl InconsistentMesh"
proof -
  have r: "read_mesh [0, 10, 20] [0, 10] [0] scenario_mesh = Inr scenario_geometry"
    by (simp add: read_mesh_def scenario_mesh_def scenario_geometry_def np_unique_def
        axis_range_def np_min_def np_max_def voxel_volume_def axis_spacing_def)
  have "set (scenario_mesh ! 3) = {volume scenario_geometry}"
    using voxel_volume_single_value [of scenario_mesh 0 "[0, 10, 20]" "[0, 10]" "[0]" scenario_geometry] r
    by blast
  then have s: "set (scenario_mesh ! 3) = {1000}" by (simp add: scenario_geometry_def)
  have "3 < length [[0, 1], [0, 0], [0, 0], [8, 9 :: real]]
      \<and> card (set ([[0, 1], [0, 0], [0, 0], [8, 9 :: real]] ! 3)) \<noteq> 1"
    by simp
  then have "voxel_volume [[0, 1], [0, 0], [0, 0], [8, 9]] = Inl InconsistentMesh"
    using voxel_volume_single_value [of "[[0, 1], [0, 0], [0, 0], [8, 9]]" 0 "[]" "[]" "[]" scenario_geometry]
    by blast
  with r s show ?thesis by blast
qed

text \<open>
  Claim C7 as stated says that the load aborts only for more than one distinct value. A
  mesh matrix without voxels has an empty volume row, which holds no value, and the load
  aborts all the same.
\<close>

theorem volume_row_empty_counterexample:
  "read_mesh [0] [0] [0] [[], [], [], []] = Inl InconsistentMesh
   \<and> \<not> 1 < card (set ([[], [], [], []] ! 3 :: real list))"
  by (simp add: read_mesh_def np_unique_def axis_range_def np_min_def np_max_def voxel_volume_def)

subsection \<open>The mesh spacing\<close>

lemma read_mesh_fields:
  assumes "read_mesh x y z m = Inr g"
  shows "x \<noteq> []" "y \<noteq> []" "z \<noteq> []"
    and "mnp_range g = ((Min (set x), Max (set x)), (Min (set y), Max (set y)), (Min (set z), Max (set z)))"
    and "ijk_range g = ((0, int (card (set x)) - 1), (0, int (card (set y)) - 1), (0, int (card (set z)) - 1))"
    and "voxel_volume m = Inr (volume g)"
    and "mnp_spacing g =
          (axis_spacing (Min (set x), Max (set x)) (np_unique x),
           axis_spacing (Min (set y), Max (set y)) (np_unique y),
           volume g / (axis_spacing (Min (set x), Max (set x)) (np_unique x)
                       * axis_spacing (Min (set y), Max (set y)) (np_unique y)))"
  using assms
  by (auto simp: read_mesh_def Let_def axis_range_unique np_unique_props split: sum.splits)

lemma axis_spacing_formula:
  "axis_spacing (Min (set xs), Max (set xs)) (np_unique xs)
     = (if Min (set xs) = Max (set xs) then 1
        else (Max (set xs) - Min (set xs)) / (real (card (set xs)) - 1))"
  by (simp add: axis_spacing_def np_unique_props)

lemma axis_spacing_pos:
  assumes "xs \<noteq> []"
  shows "0 < axis_spacing (Min (set xs), Max (set xs)) (np_unique xs)"
proof (cases "Min (set xs) = Max (set xs)")
  case True
  then show ?thesis by (simp add: axis_spacing_def)
next
  case False
  have ne: "set xs \<noteq> {}" using assms by simp
  have "Min (set xs) \<le> Max (set xs)" using ne by simp
  with False have lt: "Min (set xs) < Max (set xs)" by simp
  have "{Min (set xs), Max (set xs)} \<subseteq> set xs" using ne by simp
  then have "card {Min (set xs), Max (set xs)} \<le> card (set xs)"
    by (intro card_mono) simp_all
  with False have "2 \<le> card (set xs)" by simp
  then have "0 < real (card (set xs)) - 1" by simp
  with lt False show ?thesis by (simp add: axis_spacing_formula)
qed

text \<open>
  Claim C6, as amended. For every loaded mesh, each of the first two axes has the spacing
  1.0 when its coordinate range is a single value and (max - min) / (count - 1)
  otherwise, where count is the number of distinct coordinates; the spacing of the third
  axis is always the voxel volume divided by the product of the first two spacings, also
  when the range of the third axis is a single value. The first two spacings are
  positive, so the quotient is defined.
\<close>

theorem mesh_spacing_rule:
  "read_mesh x y z m = Inr g \<longrightarrow>
     fst (mnp_spacing g)
       = (if Min (set x) = Max (set x) then 1
          else (Max (set x) - Min (set x)) / (real (card (set x)) - 1))
     \<and> fst (snd (mnp_spacing g))
       = (if Min (set y) = Max (set y) then 1
          else (Max (set y) - Min (set y)) / (real (card (set y)) - 1))
     \<and> snd (snd (mnp_spacing g))
       = volume g / (fst (mnp_spacing g) * fst (snd (mnp_spacing g)))
     \<and> 0 < fst (mnp_spacing g) \<and> 0 < fst (snd (mnp_spacing g))"
proof
  assume a: "read_mesh x y z m = Inr g"
  note f = read_mesh_fields [OF a]
  show "fst (mnp_spacing g)
       = (if Min (set x) = Max (set x) then 1
          else (Max (set x) - Min (set x)) / (real (card (set x)) - 1))
     \<and> fst (snd (mnp_spacing g))
       = (if Min (set y) = Max (set y) then 1
          else (Max (set y) - Min (set y)) / (real (card (set y)) - 1))
     \<and> snd (snd (mnp_spacing g))
       = volume g / (fst (mnp_spacing g) * fst (snd (mnp_spacing g)))
     \<and> 0 < fst (mnp_spacing g) \<and> 0 < fst (snd (mnp_spacing g))"
    using axis_spacing_pos [OF f(1)] axis_spacing_pos [OF f(2)]
    unfolding f(7) by (simp add: axis_spacing_formula)
qed

lemma scenario_read_mesh: "read_mesh [0, 10, 20] [0, 10] [0] scenario_mesh = Inr scenario_geometry"
  by (simp add: read_mesh_def scenario_mesh_def scenario_geometry_def np_unique_def
      axis_range_def np_min_def np_max_def voxel_volume_def axis_spacing_def)

text \<open>The mesh of scenario A: the spacings are 10, 10 and 1000 / (10 * 10).\<close>

theorem mesh_spacing_rule_witness:
  "read_mesh [0, 10, 20] [0, 10] [0] scenario_mesh = Inr scenario_geometry
   \<and> mnp_spacing scenario_geometry = (10, 10, 1000 / (10 * 10))"
proof -
  have "Min (set [0, 10, 20 :: real]) = 0" "Max (set [0, 10, 20 :: real]) = 20"
    "card (set [0, 10, 20 :: real]) = 3"
    "Min (set [0, 10 :: real]) = 0" "Max (set [0, 10 :: real]) = 10"
    "card (set [0, 10 :: real]) = 2"
    by simp_all
  then have "fst (mnp_spacing scenario_geometry) = 10
     \<and> fst (snd (mnp_spacing scenario_geometry)) = 10
     \<and> snd (snd (mnp_spacing scenario_geometry))
         = volume scenario_geometry / (fst (mnp_spacing scenario_geometry) * fst (snd (mnp_spacing scenario_geometry)))"
    using mesh_spacing_rule [of "[0, 10, 20]" "[0, 10]" "[0]" scenario_mesh scenario_geometry]
      scenario_read_mesh
    by simp
  then show ?thesis
    using scenario_read_mesh by (simp add: scenario_geometry_def)
qed

text \<open>
  Claim C6 as stated gives the spacing 1.0 to an axis whose range is a single value. In
  scenario A the range of the third axis is the single value 0, and its spacing is 10.
\<close>

theorem collapsed_third_axis_counterexample:
  "read_mesh [0, 10, 20] [0, 10] [0] scenario_mesh = Inr scenario_geometry
   \<and> fst (snd (snd (mnp_range scenario_geometry))) = snd (snd (snd (mnp_range scenario_geometry)))
   \<and> snd (snd (mnp_spacing scenario_geometry)) \<noteq> 1"
  using scenario_read_mesh by (simp add: scenario_geometry_def)

subsection \<open>The voxel of an agent\<close>

lemma np_round_nearest: "\<bar>real_of_int (np_round r) - r\<bar> \<le> 1 / 2"
proof -
  have "real_of_int \<lfloor>r\<rfloor> \<le> r" "r < real_of_int \<lfloor>r\<rfloor> + 1" by linarith+
  then show ?thesis by (auto simp: np_round_def Let_def)
qed

text \<open>Powers of two, and what the bisection finds.\<close>

lemma pow2_powr: "pow2 e = 2 powr (real_of_int e)"
proof (cases "0 \<le> e")
  case True
  then have "2 powr (real_of_int e) = 2 powr (real (nat e))" by simp
  also have "\<dots> = 2 ^ nat e" by (simp add: powr_realpow)
  finally show ?thesis using True by (simp add: pow2_def)
next
  case False
  then have "2 powr (real_of_int e) = 2 powr (- real (nat (- e)))" by simp
  also have "\<dots> = 1 / 2 ^ nat (- e)" by (simp add: powr_minus powr_realpow inverse_eq_divide)
  finally show ?thesis using False by (simp add: pow2_def)
qed

lemma pow2_pos: "0 < pow2 e"
  by (simp add: pow2_powr)

lemma pow2_mono: "a \<le> b \<Longrightarrow> pow2 a \<le> pow2 b"
  by (simp add: pow2_powr)

lemma pow2_strict_mono: "a < b \<Longrightarrow> pow2 a < pow2 b"
  by (simp add: pow2_powr)

lemma pow2_less: "pow2 a < pow2 b \<Longrightarrow> a < b"
  by (simp add: pow2_powr)

lemma pow2_add: "pow2 (a + b) = pow2 a * pow2 b"
  by (simp add: pow2_powr powr_add)

lemma pow2_diff: "pow2 (a - b) = pow2 a / pow2 b"
  by (simp add: pow2_powr powr_diff)

lemma bisect_exponent_spec:
  assumes "lo \<le> hi + 1" and "hi - lo < 2 ^ n" and "x < pow2 (hi + 1)"
  shows "lo \<le> bisect_exponent n lo hi x \<and> bisect_exponent n lo hi x \<le> max lo hi
    \<and> x < pow2 (bisect_exponent n lo hi x + 1)
    \<and> (pow2 (bisect_exponent n lo hi x) \<le> x \<or> bisect_exponent n lo hi x = lo)"
  using assms
proof (induction n arbitrary: lo hi)
  case 0
  then have "hi + 1 \<le> lo + 1" by simp
  then have "pow2 (hi + 1) \<le> pow2 (lo + 1)" by (rule pow2_mono)
  then show ?case using 0 by simp
next
  case (Suc n)
  define mid where "mid = (lo + hi + 1) div 2"
  have m: "2 * mid \<le> lo + hi + 1" "lo + hi < 2 * mid + 1" unfolding mid_def by linarith+
  have k: "hi - lo < 2 * 2 ^ n" using Suc.prems(2) by simp
  show ?case
  proof (cases "pow2 mid \<le> x")
    case True
    then have e: "bisect_exponent (Suc n) lo hi x = bisect_exponent n mid hi x"
      by (simp add: Let_def mid_def)
    have "mid \<le> hi + 1" "hi - mid < 2 ^ n" using m k Suc.prems(1) by linarith+
    from Suc.IH [OF this Suc.prems(3)]
    have i: "mid \<le> bisect_exponent n mid hi x" "bisect_exponent n mid hi x \<le> max mid hi"
      "x < pow2 (bisect_exponent n mid hi x + 1)"
      "pow2 (bisect_exponent n mid hi x) \<le> x \<or> bisect_exponent n mid hi x = mid"
      by simp_all
    have "lo \<le> mid" using m Suc.prems(1) by linarith
    moreover have "mid \<le> hi"
    proof (rule ccontr)
      assume "\<not> mid \<le> hi"
      then have "pow2 (hi + 1) \<le> pow2 mid" by (intro pow2_mono) simp
      then show False using True Suc.prems(3) by simp
    qed
    moreover have "pow2 (bisect_exponent n mid hi x) \<le> x" using i(4) True by auto
    ultimately show ?thesis unfolding e using i by (auto simp: max_def)
  next
    case False
    then have e: "bisect_exponent (Suc n) lo hi x = bisect_exponent n lo (mid - 1) x"
      by (simp add: Let_def mid_def)
    have "lo \<le> mid - 1 + 1" "mid - 1 - lo < 2 ^ n" using m k Suc.prems(1) by linarith+
    moreover have "x < pow2 (mid - 1 + 1)" using False by simp
    ultimately have i: "lo \<le> bisect_exponent n lo (mid - 1) x"
      "bisect_exponent n lo (mid - 1) x \<le> max lo (mid - 1)"
      "x < pow2 (bisect_exponent n lo (mid - 1) x + 1)"
      "pow2 (bisect_exponent n lo (mid - 1) x) \<le> x \<or> bisect_exponent n lo (mid - 1) x = lo"
      using Suc.IH [of lo "mid - 1"] by simp_all
    have "max lo (mid - 1) \<le> max lo hi" using m Suc.prems(1) by linarith
    then show ?thesis unfolding e using i by auto
  qed
qed

text \<open>
  The exponent of a number below \<open>pow2 1024\<close> is the one of its binade, so the values of
  the exponent need no bisection by hand.
\<close>

lemma float_exponent_spec:
  assumes "\<bar>x\<bar> < pow2 1024"
  shows "- 1022 \<le> float_exponent x" "float_exponent x \<le> 1023"
    "\<bar>x\<bar> < pow2 (float_exponent x + 1)"
    "pow2 (float_exponent x) \<le> \<bar>x\<bar> \<or> float_exponent x = - 1022"
  using bisect_exponent_spec [of "- 1022" 1023 11 "\<bar>x\<bar>"] assms
  by (simp_all add: float_exponent_def)

text \<open>
  A number of magnitude below \<open>pow2 k\<close> rounds to a finite \<^verbatim>\<open>float64\<close> of magnitude at
  most \<open>pow2 k\<close>; so the quotient of the voxel block is finite for positions and
  spacings of ordinary size.
\<close>

lemma round_f64_finite:
  assumes "\<bar>x\<bar> < pow2 k" and "- 1022 < k" and "k \<le> 1023"
  shows "\<exists>r. round_f64 x = Some r \<and> \<bar>r\<bar> \<le> pow2 k"
proof -
  define e where "e = float_exponent x"
  define ulp where "ulp = pow2 (e - 52)"
  define r where "r = real_of_int (np_round (x / ulp)) * ulp"
  have "pow2 k \<le> pow2 1024" using assms(3) by (intro pow2_mono) simp
  then have x: "\<bar>x\<bar> < pow2 1024" using assms(1) by simp
  note s = float_exponent_spec [OF x, folded e_def]
  have ek: "e + 1 \<le> k"
  proof (cases "pow2 e \<le> \<bar>x\<bar>")
    case True
    then have "pow2 e < pow2 k" using assms(1) by simp
    then show ?thesis using pow2_less by fastforce
  next
    case False
    then show ?thesis using s(4) assms(2) by simp
  qed
  have u: "0 < ulp" by (simp add: ulp_def pow2_pos)
  have p: "pow2 (e + 1) = pow2 53 * ulp"
    unfolding ulp_def using pow2_add [of 53 "e - 52"] by (simp add: add.commute)
  then have "\<bar>x\<bar> < pow2 53 * ulp" using s(3) by simp
  then have "\<bar>x / ulp\<bar> < pow2 53" using u by (simp add: field_simps)
  moreover have "\<bar>real_of_int (np_round (x / ulp)) - x / ulp\<bar> \<le> 1 / 2"
    by (rule np_round_nearest)
  ultimately have "\<bar>real_of_int (np_round (x / ulp))\<bar> < pow2 53 + 1"
    by linarith
  then have "\<bar>real_of_int (np_round (x / ulp))\<bar> < real_of_int (2 ^ 53 + 1)"
    by (simp add: pow2_def)
  then have "\<bar>np_round (x / ulp)\<bar> < 2 ^ 53 + 1"
    by linarith
  then have "\<bar>np_round (x / ulp)\<bar> \<le> 2 ^ 53" by simp
  then have "\<bar>real_of_int (np_round (x / ulp))\<bar> \<le> pow2 53"
    by (simp add: pow2_def)
  then have "\<bar>r\<bar> \<le> pow2 53 * ulp"
    unfolding r_def abs_mult using u by (simp add: mult_right_mono)
  also have "\<dots> = pow2 (e + 1)" using p by simp
  also have "\<dots> \<le> pow2 k" using ek by (rule pow2_mono)
  finally have b: "\<bar>r\<bar> \<le> pow2 k" .
  have "pow2 k < pow2 1024" using assms(3) by (intro pow2_strict_mono) simp
  then have "\<bar>r\<bar> < pow2 1024" using b by simp
  then have "round_f64 x = Some r"
    by (simp add: round_f64_def Let_def r_def ulp_def e_def)
  then show ?thesis using b by blast
qed

lemma float_quotient_finite:
  assumes "\<bar>p - r_min\<bar> < pow2 500" and "pow2 (- 500) \<le> \<bar>d\<bar>"
  shows "\<exists>q. float_quotient p r_min d = Some q"
proof -
  obtain r where r: "round_f64 (p - r_min) = Some r" "\<bar>r\<bar> \<le> pow2 500"
    using round_f64_finite [OF assms(1)] by auto
  have d: "0 < \<bar>d\<bar>" using assms(2) pow2_pos [of "- 500"] by linarith
  have "\<bar>r\<bar> * pow2 (- 500) \<le> \<bar>r\<bar> * \<bar>d\<bar>"
    using assms(2) by (intro mult_left_mono) simp_all
  then have "\<bar>r\<bar> / \<bar>d\<bar> \<le> \<bar>r\<bar> / pow2 (- 500)"
    using d pow2_pos [of "- 500"] by (simp add: field_simps)
  also have "\<dots> \<le> pow2 500 / pow2 (- 500)"
    using r(2) pow2_pos [of "- 500"] by (simp add: divide_right_mono)
  also have "\<dots> = pow2 1000" using pow2_diff [of 500 "- 500"] by simp
  also have "\<dots> < pow2 1001" by (intro pow2_strict_mono) simp
  finally have "\<bar>r / d\<bar> < pow2 1001" by simp
  then obtain q where "round_f64 (r / d) = Some q"
    using round_f64_finite [of "r / d" 1001] by auto
  then show ?thesis using r(1) d by (auto simp: float_quotient_def)
qed

text \<open>One axis and the three axes.\<close>

lemma voxel_index_Inr:
  "voxel_index tr d (lo, hi) p = Inr v \<longleftrightarrow>
     (\<exists>q. float_quotient p (fst tr) d = Some q
          \<and> v = max lo (min hi (astype_int64 (np_round q))))"
  by (auto simp: voxel_index_def Let_def split: option.splits)

lemma voxel_index_bounds:
  "voxel_index tr d (lo, hi) p = Inr v \<Longrightarrow> lo \<le> hi \<Longrightarrow> lo \<le> v \<and> v \<le> hi"
  by (auto simp: voxel_index_Inr)

lemma cell_voxel_Inr:
  assumes "mnp_range g = (tm, tn, tp)" and "ijk_range g = (ti, tj, tk)"
    and "mnp_spacing g = (dm, dn, dp)"
  shows "cell_voxel g (px, py, pz) = Inr (i, j, k) \<longleftrightarrow>
     voxel_index tm dm ti px = Inr i \<and> voxel_index tn dn tj py = Inr j
     \<and> voxel_index tp dp tk pz = Inr k"
  by (auto simp: cell_voxel_def assms split: sum.splits)

lemma card_axis_pos: "xs \<noteq> [] \<Longrightarrow> 0 \<le> int (card (set xs)) - 1"
proof -
  assume "xs \<noteq> []"
  then have "0 < card (set xs)" by (simp add: card_gt_0_iff)
  then show ?thesis by simp
qed

lemma float_exponent_eq:
  assumes "pow2 e \<le> \<bar>x\<bar>" and "\<bar>x\<bar> < pow2 (e + 1)" and "- 1022 \<le> e" and "e \<le> 1023"
  shows "float_exponent x = e"
proof -
  have "pow2 (e + 1) \<le> pow2 1024" using assms(4) by (intro pow2_mono) simp
  then have "\<bar>x\<bar> < pow2 1024" using assms(2) by simp
  note s = float_exponent_spec [OF this]
  have "pow2 e < pow2 (float_exponent x + 1)" using assms(1) s(3) by simp
  then have a: "e \<le> float_exponent x" using pow2_less by fastforce
  have "float_exponent x \<le> e"
  proof (cases "pow2 (float_exponent x) \<le> \<bar>x\<bar>")
    case True
    then have "pow2 (float_exponent x) < pow2 (e + 1)" using assms(2) by simp
    then show ?thesis using pow2_less by fastforce
  next
    case False
    then show ?thesis using s(4) assms(3) by simp
  qed
  then show ?thesis using a by simp
qed

lemma float_exponent_zero: "float_exponent 0 = - 1022"
proof -
  have "\<bar>0 :: real\<bar> < pow2 1024" using pow2_pos [of 1024] by simp
  from float_exponent_spec(4) [OF this] pow2_pos [of "float_exponent 0"]
  show ?thesis by simp
qed

text \<open>The \<^verbatim>\<open>float64\<close> values of the scenarios.\<close>

lemma float_exponent_values:
  "float_exponent 9 = 3"
  "float_exponent (9 / 10) = - 1"
  "float_exponent 4 = 2"
  "float_exponent (2 / 5) = - 2"
  "float_exponent 37 = 5"
  "float_exponent (37 / 10) = 1"
  "float_exponent (- 8) = 3"
  "float_exponent (- (4 / 5)) = - 1"
  "float_exponent 5 = 2"
  "float_exponent (1 / 2) = - 1"
  "float_exponent 100000000000000000000 = 66"
  "float_exponent 10000000000000000000 = 63"
  by (rule float_exponent_eq; simp add: pow2_def)+

lemma round_f64_values:
  "round_f64 0 = Some 0"
  "round_f64 9 = Some 9"
  "round_f64 (9 / 10) = Some (8106479329266893 / 9007199254740992)"
  "round_f64 4 = Some 4"
  "round_f64 (2 / 5) = Some (3602879701896397 / 9007199254740992)"
  "round_f64 37 = Some 37"
  "round_f64 (37 / 10) = Some (8331659310635418 / 2251799813685248)"
  "round_f64 (- 8) = Some (- 8)"
  "round_f64 (- (4 / 5)) = Some (- (7205759403792794 / 9007199254740992))"
  "round_f64 5 = Some 5"
  "round_f64 (1 / 2) = Some (1 / 2)"
  "round_f64 100000000000000000000 = Some 100000000000000000000"
  "round_f64 10000000000000000000 = Some 10000000000000000000"
  by (simp_all add: round_f64_def float_exponent_zero float_exponent_values pow2_def
      np_round_def Let_def)

lemma scenario_voxel_index:
  "voxel_index (0, 20) 10 (0, 2) 9 = Inr 1"
  "voxel_index (0, 10) 10 (0, 1) 4 = Inr 0"
  "voxel_index (0, 20) 10 (0, 2) 37 = Inr 2"
  "voxel_index (0, 10) 10 (0, 1) (- 8) = Inr 0"
  "voxel_index (0, 0) 10 (0, 0) 5 = Inr 0"
  "voxel_index (0, 20) 10 (0, 2) 100000000000000000000 = Inr 0"
  by (simp_all add: voxel_index_def float_quotient_def round_f64_values np_round_def
      astype_int64_def Let_def)

lemma voxel_index_origin: "d \<noteq> 0 \<Longrightarrow> voxel_index (0, 0) d (0, 0) 0 = Inr 0"
  by (simp add: voxel_index_def float_quotient_def round_f64_values np_round_def
      astype_int64_def Let_def)

text \<open>
  Claim C4. For a geometry with the voxel index ranges of a loaded mesh (the ranges and
  spacings being whatever \<^verbatim>\<open>float64\<close> values the loader stored), every stored voxel index
  lies between 0 and the range maximum, which is the number of distinct axis coordinates
  less one. On each axis the stored index is the \<^verbatim>\<open>float64\<close> quotient
  (position - axis minimum) / axis spacing, rounded to a nearest integer, cast to
  \<^verbatim>\<open>int64\<close> and clamped into the index range: it is the clamped rounded quotient when the
  rounded quotient is an \<^verbatim>\<open>int64\<close>, and the clamped least \<^verbatim>\<open>int64\<close>, that is the range
  minimum, when it is not. The indices exist for positions and spacings of ordinary size
  (a distance to the axis minimum below \<open>pow2 500\<close>, a spacing of magnitude at least
  \<open>pow2 (-500)\<close>). On the mesh with the axes \<open>[0, 10, 20]\<close>, \<open>[0, 10]\<close>, \<open>[0]\<close> the agent
  at (9, 4, 0) gets the voxel indices (1, 0, 0).
\<close>

theorem cell_voxel_clamped:
  "(read_mesh x y z m = Inr g0 \<and> ijk_range g = ijk_range g0
      \<and> cell_voxel g (px, py, pz) = Inr (i, j, k) \<longrightarrow>
      ijk_range g = ((0, int (card (set x)) - 1), (0, int (card (set y)) - 1), (0, int (card (set z)) - 1))
      \<and> 0 \<le> i \<and> i \<le> int (card (set x)) - 1
      \<and> 0 \<le> j \<and> j \<le> int (card (set y)) - 1
      \<and> 0 \<le> k \<and> k \<le> int (card (set z)) - 1)
   \<and> (voxel_index tr d (lo, hi) p = Inr v \<longrightarrow>
        (\<exists>q. float_quotient p (fst tr) d = Some q
           \<and> \<bar>real_of_int (np_round q) - q\<bar> \<le> 1 / 2
           \<and> v = max lo (min hi (astype_int64 (np_round q)))
           \<and> (- (2 ^ 63) \<le> np_round q \<and> np_round q < 2 ^ 63 \<longrightarrow>
                 v = max lo (min hi (np_round q)))
           \<and> (np_round q < - (2 ^ 63) \<or> 2 ^ 63 \<le> np_round q \<longrightarrow>
                 v = max lo (min hi (- (2 ^ 63))))))
   \<and> (mnp_range g = (tm, tn, tp) \<and> mnp_spacing g = (dm, dn, dp)
        \<and> \<bar>px - fst tm\<bar> < pow2 500 \<and> pow2 (- 500) \<le> \<bar>dm\<bar>
        \<and> \<bar>py - fst tn\<bar> < pow2 500 \<and> pow2 (- 500) \<le> \<bar>dn\<bar>
        \<and> \<bar>pz - fst tp\<bar> < pow2 500 \<and> pow2 (- 500) \<le> \<bar>dp\<bar> \<longrightarrow>
        (\<exists>w. cell_voxel g (px, py, pz) = Inr w))
   \<and> (read_mesh [0, 10, 20] [0, 10] [0] m = Inr g \<and> volume g \<noteq> 0 \<longrightarrow>
        cell_voxel g (9, 4, 0) = Inr (1, 0, 0))"
proof (intro conjI impI)
  assume a: "read_mesh x y z m = Inr g0 \<and> ijk_range g = ijk_range g0
      \<and> cell_voxel g (px, py, pz) = Inr (i, j, k)"
  then have r: "read_mesh x y z m = Inr g0" and e: "ijk_range g = ijk_range g0"
    and c: "cell_voxel g (px, py, pz) = Inr (i, j, k)" by simp_all
  note f = read_mesh_fields [OF r]
  note p = card_axis_pos [OF f(1)] card_axis_pos [OF f(2)] card_axis_pos [OF f(3)]
  show t: "ijk_range g = ((0, int (card (set x)) - 1), (0, int (card (set y)) - 1), (0, int (card (set z)) - 1))"
    using e f(5) by simp
  obtain tm tn tp where tr: "mnp_range g = (tm, tn, tp)" by (cases "mnp_range g") auto
  obtain dm dn dp where d: "mnp_spacing g = (dm, dn, dp)" by (cases "mnp_spacing g") auto
  note v = cell_voxel_Inr [OF tr t d, of px py pz i j k, THEN iffD1, OF c]
  have vi: "voxel_index tm dm (0, int (card (set x)) - 1) px = Inr i" using v by simp
  have vj: "voxel_index tn dn (0, int (card (set y)) - 1) py = Inr j" using v by simp
  have vk: "voxel_index tp dp (0, int (card (set z)) - 1) pz = Inr k" using v by simp
  show "0 \<le> i" "i \<le> int (card (set x)) - 1" using voxel_index_bounds [OF vi p(1)] by simp_all
  show "0 \<le> j" "j \<le> int (card (set y)) - 1" using voxel_index_bounds [OF vj p(2)] by simp_all
  show "0 \<le> k" "k \<le> int (card (set z)) - 1" using voxel_index_bounds [OF vk p(3)] by simp_all
next
  assume "voxel_index tr d (lo, hi) p = Inr v"
  then obtain q where q: "float_quotient p (fst tr) d = Some q"
    and v: "v = max lo (min hi (astype_int64 (np_round q)))"
    unfolding voxel_index_Inr by blast
  have "- (2 ^ 63) \<le> np_round q \<and> np_round q < 2 ^ 63 \<longrightarrow> v = max lo (min hi (np_round q))"
    using v by (simp add: astype_int64_def)
  moreover have "np_round q < - (2 ^ 63) \<or> 2 ^ 63 \<le> np_round q \<longrightarrow>
      v = max lo (min hi (- (2 ^ 63)))"
    using v by (auto simp: astype_int64_def)
  ultimately show "\<exists>q. float_quotient p (fst tr) d = Some q
           \<and> \<bar>real_of_int (np_round q) - q\<bar> \<le> 1 / 2
           \<and> v = max lo (min hi (astype_int64 (np_round q)))
           \<and> (- (2 ^ 63) \<le> np_round q \<and> np_round q < 2 ^ 63 \<longrightarrow>
                 v = max lo (min hi (np_round q)))
           \<and> (np_round q < - (2 ^ 63) \<or> 2 ^ 63 \<le> np_round q \<longrightarrow>
                 v = max lo (min hi (- (2 ^ 63))))"
    using q v np_round_nearest [of q] by blast
next
  assume a: "mnp_range g = (tm, tn, tp) \<and> mnp_spacing g = (dm, dn, dp)
        \<and> \<bar>px - fst tm\<bar> < pow2 500 \<and> pow2 (- 500) \<le> \<bar>dm\<bar>
        \<and> \<bar>py - fst tn\<bar> < pow2 500 \<and> pow2 (- 500) \<le> \<bar>dn\<bar>
        \<and> \<bar>pz - fst tp\<bar> < pow2 500 \<and> pow2 (- 500) \<le> \<bar>dp\<bar>"
  obtain ti tj tk where t: "ijk_range g = (ti, tj, tk)" by (cases "ijk_range g") auto
  obtain qi where qi: "float_quotient px (fst tm) dm = Some qi"
    using a float_quotient_finite [of px "fst tm" dm] by auto
  obtain qj where qj: "float_quotient py (fst tn) dn = Some qj"
    using a float_quotient_finite [of py "fst tn" dn] by auto
  obtain qk where qk: "float_quotient pz (fst tp) dp = Some qk"
    using a float_quotient_finite [of pz "fst tp" dp] by auto
  obtain i where i: "voxel_index tm dm ti px = Inr i"
    using qi by (cases ti) (simp add: voxel_index_Inr)
  obtain j where j: "voxel_index tn dn tj py = Inr j"
    using qj by (cases tj) (simp add: voxel_index_Inr)
  obtain k where k: "voxel_index tp dp tk pz = Inr k"
    using qk by (cases tk) (simp add: voxel_index_Inr)
  have "cell_voxel g (px, py, pz) = Inr (i, j, k)"
    using cell_voxel_Inr [of g tm tn tp ti tj tk dm dn dp px py pz i j k] a t i j k by simp
  then show "\<exists>w. cell_voxel g (px, py, pz) = Inr w" by blast
next
  assume a: "read_mesh [0, 10, 20] [0, 10] [0] m = Inr g \<and> volume g \<noteq> 0"
  then have r: "read_mesh [0, 10, 20] [0, 10] [0] m = Inr g" and v: "volume g \<noteq> 0" by simp_all
  note f = read_mesh_fields [OF r]
  have s: "mnp_spacing g = (10, 10, volume g / 100)"
    unfolding f(7) by (simp add: axis_spacing_def np_unique_def)
  have t: "mnp_range g = ((0, 20), (0, 10), (0, 0))" unfolding f(4) by simp
  have u: "ijk_range g = ((0, 2), (0, 1), (0, 0))" unfolding f(5) by simp
  have "voxel_index (0, 0) (volume g / 100) (0, 0) 0 = Inr 0"
    using v by (intro voxel_index_origin) simp
  then show "cell_voxel g (9, 4, 0) = Inr (1, 0, 0)"
    using cell_voxel_Inr [OF t u s, of 9 4 0 1 0 0] scenario_voxel_index(1,2) by simp
qed

text \<open>
  The theorem on the mesh of scenario A: scenario B; an agent outside the mesh, at
  (37, -8, 5), whose indices are clamped to (2, 0, 0); and the two cases of the cast, at
  the positions 9 and \<open>10^20\<close> on the first axis.
\<close>

theorem cell_voxel_clamped_witness:
  "read_mesh [0, 10, 20] [0, 10] [0] scenario_mesh = Inr scenario_geometry
   \<and> cell_voxel scenario_geometry (9, 4, 0) = Inr (1, 0, 0)
   \<and> cell_voxel scenario_geometry (37, - 8, 5) = Inr (2, 0, 0)
   \<and> (2 :: int) \<le> int (card (set [0, 10, 20 :: real])) - 1
   \<and> voxel_index (0, 20) 10 (0, 2) 100000000000000000000 = Inr 0
   \<and> float_quotient 100000000000000000000 0 10 = Some 10000000000000000000
   \<and> (0 :: int) = max 0 (min 2 (- (2 ^ 63)))
   \<and> float_quotient 9 0 10 = Some (8106479329266893 / 9007199254740992)
   \<and> (1 :: int) = max 0 (min 2 (np_round (8106479329266893 / 9007199254740992)))
   \<and> (\<exists>w. cell_voxel scenario_geometry (37, - 8, 5) = Inr w)
   \<and> volume scenario_geometry \<noteq> 0"
proof -
  note t = cell_voxel_clamped [of "[0, 10, 20]" "[0, 10]" "[0]" scenario_mesh scenario_geometry
    scenario_geometry]
  have v: "volume scenario_geometry \<noteq> 0" by (simp add: scenario_geometry_def)
  have f: "mnp_range scenario_geometry = ((0, 20), (0, 10), (0, 0))"
    "ijk_range scenario_geometry = ((0, 2), (0, 1), (0, 0))"
    "mnp_spacing scenario_geometry = (10, 10, 10)"
    by (simp_all add: scenario_geometry_def)
  have a: "cell_voxel scenario_geometry (9, 4, 0) = Inr (1, 0, 0)"
    using t scenario_read_mesh v by blast
  have b: "cell_voxel scenario_geometry (37, - 8, 5) = Inr (2, 0, 0)"
    using cell_voxel_Inr [OF f, of 37 "- 8" 5 2 0 0] scenario_voxel_index(3,4,5) by simp
  have c: "(2 :: int) \<le> int (card (set [0, 10, 20 :: real])) - 1"
    using t [where px = 37 and py = "- 8" and pz = 5 and i = 2 and j = 0 and k = 0]
      b scenario_read_mesh by blast
  have d: "voxel_index (0, 20) 10 (0, 2) 100000000000000000000 = Inr 0"
    by (rule scenario_voxel_index(6))
  have q1: "float_quotient 100000000000000000000 0 10 = Some 10000000000000000000"
    by (simp add: float_quotient_def round_f64_values)
  have r1: "np_round 10000000000000000000 = 10000000000000000000"
    by (simp add: np_round_def)
  from t [where tr = "(0, 20)" and d = 10 and lo = 0 and hi = 2
      and p = 100000000000000000000 and v = 0] d
  obtain qa where qa: "float_quotient 100000000000000000000 (fst (0 :: real, 20 :: real)) 10 = Some qa"
    "np_round qa < - (2 ^ 63) \<or> 2 ^ 63 \<le> np_round qa \<longrightarrow> (0 :: int) = max 0 (min 2 (- (2 ^ 63)))"
    by blast
  have "qa = 10000000000000000000" using qa(1) q1 by simp
  then have e: "(0 :: int) = max 0 (min 2 (- (2 ^ 63)))"
    using qa(2) r1 by simp
  have q2: "float_quotient 9 0 10 = Some (8106479329266893 / 9007199254740992)"
    by (simp add: float_quotient_def round_f64_values)
  have r2: "np_round (8106479329266893 / 9007199254740992) = 1"
    by (simp add: np_round_def)
  from t [where tr = "(0, 20)" and d = 10 and lo = 0 and hi = 2 and p = 9 and v = 1]
    scenario_voxel_index(1)
  obtain qb where qb: "float_quotient 9 (fst (0 :: real, 20 :: real)) 10 = Some qb"
    "- (2 ^ 63) \<le> np_round qb \<and> np_round qb < 2 ^ 63 \<longrightarrow> (1 :: int) = max 0 (min 2 (np_round qb))"
    by blast
  have "qb = 8106479329266893 / 9007199254740992" using qb(1) q2 by simp
  then have g: "(1 :: int) = max 0 (min 2 (np_round (8106479329266893 / 9007199254740992)))"
    using qb(2) r2 by simp
  have "\<bar>37 - fst (0 :: real, 20 :: real)\<bar> < pow2 500 \<and> pow2 (- 500) \<le> \<bar>10 :: real\<bar>
      \<and> \<bar>- 8 - fst (0 :: real, 10 :: real)\<bar> < pow2 500
      \<and> \<bar>5 - fst (0 :: real, 0 :: real)\<bar> < pow2 500"
    by (simp add: pow2_def)
  then have h: "\<exists>w. cell_voxel scenario_geometry (37, - 8, 5) = Inr w"
    using t [where px = 37 and py = "- 8" and pz = 5 and tm = "(0, 20)" and tn = "(0, 10)"
        and tp = "(0, 0)" and dm = 10 and dn = 10 and dp = 10] f by blast
  from a b c d q1 e q2 g h v scenario_read_mesh show ?thesis by blast
qed

text \<open>
  An agent far beyond the last voxel of the first axis, at \<open>10^20\<close>: its quotient
  \<open>10^19\<close> is no \<^verbatim>\<open>int64\<close>, the cast gives the least \<^verbatim>\<open>int64\<close> and the second masked
  assignment the index 0, where the nearest voxel index clamped into the range is 2.
\<close>

theorem far_agent_index_counterexample:
  "cell_voxel scenario_geometry (100000000000000000000, 4, 0) = Inr (0, 0, 0)
   \<and> spec_cell_voxel scenario_geometry (100000000000000000000, 4, 0) = (2, 0, 0)"
proof -
  have f: "mnp_range scenario_geometry = ((0, 20), (0, 10), (0, 0))"
    "ijk_range scenario_geometry = ((0, 2), (0, 1), (0, 0))"
    "mnp_spacing scenario_geometry = (10, 10, 10)"
    by (simp_all add: scenario_geometry_def)
  have "voxel_index (0, 0) 10 (0, 0) 0 = Inr 0" by (intro voxel_index_origin) simp
  then have a: "cell_voxel scenario_geometry (100000000000000000000, 4, 0) = Inr (0, 0, 0)"
    using cell_voxel_Inr [OF f, of 100000000000000000000 4 0 0 0 0] scenario_voxel_index(2,6)
    by simp
  have b: "spec_cell_voxel scenario_geometry (100000000000000000000, 4, 0) = (2, 0, 0)"
    by (simp add: spec_cell_voxel_def spec_voxel_index_def f np_round_def)
  from a b show ?thesis by blast
qed

subsection \<open>The dataframe accessors\<close>

text \<open>
  The deletion set of the filter block never holds a coordinate label, dropping columns
  takes away exactly the labels of the deletion set, the slice and the final sort leave
  the labels as they are, and the sort succeeds when its keys are columns of the frame.
\<close>

lemma es_delete_outside: "es_delete_of es_coor df values drop' keep \<inter> es_coor = {}"
  by (auto simp: es_delete_of_def Let_def)

lemma drop_columns_names:
  "set (column_names (drop_columns es_delete df)) = set (column_names df) - es_delete"
  "index_name (drop_columns es_delete df) = index_name df"
  by (auto simp: drop_columns_def column_names_def)

lemma filter_z_slice_names:
  "filter_z_slice df z = Inr df' \<Longrightarrow> column_names df' = column_names df \<and> index_name df' = index_name df"
  by (auto simp: filter_z_slice_def column_names_def comp_def split: option.splits)

lemma sort_values_Inr: "sort_values by df = Inr df' \<Longrightarrow> df' = df"
  by (induction "by" df rule: sort_values.induct) (auto split: if_splits)

lemma distinct_count: "distinct xs \<Longrightarrow> k \<in> set xs \<Longrightarrow> length (filter (\<lambda>c. c = k) xs) = 1"
  by (induction xs) (auto simp: filter_empty_conv)

lemma sort_values_columns:
  "distinct (column_names df) \<Longrightarrow>
   \<forall>k \<in> set by. k \<in> set (column_names df) \<and> k \<noteq> index_name df \<Longrightarrow> sort_values by df = Inr df"
  by (induction "by" df rule: sort_values.induct) (auto simp: distinct_count)

lemma get_conc_df_Inr:
  assumes "get_conc_df ar_p_axis df_conc z_slice halt values drop' keep = Inr df"
  shows "set (column_names df) \<subseteq> set (column_names df_conc)"
    and "es_coor_conc \<inter> set (column_names df_conc) \<subseteq> set (column_names df)"
    and "index_name df = ''index''"
proof -
  from assms obtain z df1 df2 where z: "filter_z_slice df_conc z = Inr df1"
    and s: "sort_values [''voxel_i'', ''voxel_j'', ''voxel_k'', ''time'']
              (drop_columns (es_delete_of es_coor_conc df1 values drop' keep) df1) = Inr df2"
    and d: "df = df2\<lparr>index_name := ''index''\<rparr>"
    by (auto simp: get_conc_df_def Let_def split: if_splits sum.splits)
  have d2: "df2 = drop_columns (es_delete_of es_coor_conc df1 values drop' keep) df1"
    using sort_values_Inr [OF s] .
  have n: "column_names df1 = column_names df_conc" using filter_z_slice_names [OF z] by simp
  have c: "set (column_names df)
      = set (column_names df1) - es_delete_of es_coor_conc df1 values drop' keep"
    using drop_columns_names(1) [of "es_delete_of es_coor_conc df1 values drop' keep" df1]
    by (simp add: d d2 column_names_def)
  show "set (column_names df) \<subseteq> set (column_names df_conc)" using c n by auto
  show "es_coor_conc \<inter> set (column_names df_conc) \<subseteq> set (column_names df)"
    using c n es_delete_outside [of es_coor_conc df1 "values" "drop'" keep] by auto
  show "index_name df = ''index''" by (simp add: d)
qed

lemma get_cell_df_Inr:
  assumes "get_cell_df df_cell values drop' keep = Inr df"
  shows "set (column_names df) \<subseteq> set (column_names df_cell)"
    and "es_coor_cell \<inter> set (column_names df_cell) \<subseteq> set (column_names df)"
    and "index_name df = index_name df_cell"
proof -
  let ?d = "drop_columns (es_delete_of es_coor_cell df_cell values drop' keep) df_cell"
  have "sort_values [''ID''] (?d\<lparr>columns := sort_key fst (columns ?d)\<rparr>) = Inr df"
    using assms by (auto simp: get_cell_df_def Let_def split: if_splits)
  then have d: "df = ?d\<lparr>columns := sort_key fst (columns ?d)\<rparr>"
    using sort_values_Inr by blast
  have c: "set (column_names df)
      = set (column_names df_cell) - es_delete_of es_coor_cell df_cell values drop' keep"
    using drop_columns_names(1) [of "es_delete_of es_coor_cell df_cell values drop' keep" df_cell]
    by (simp add: d column_names_def)
  show "set (column_names df) \<subseteq> set (column_names df_cell)" using c by auto
  show "es_coor_cell \<inter> set (column_names df_cell) \<subseteq> set (column_names df)"
    using c es_delete_outside [of es_coor_cell df_cell "values" "drop'" keep] by auto
  show "index_name df = index_name df_cell" by (simp add: d drop_columns_def)
qed

lemma conc_frame_coor:
  assumes "conc_frame df"
  shows "es_coor_conc - {''ID''} \<subseteq> set (column_names df)"
proof -
  obtain ls where "column_names df = conc_frame_columns ls"
    using assms by (auto simp: conc_frame_def Let_def)
  then show ?thesis by (auto simp: conc_frame_columns_def es_coor_conc_def)
qed

lemma drop_columns_distinct:
  "distinct (column_names df) \<Longrightarrow> distinct (column_names (drop_columns es_delete df))"
  by (simp add: drop_columns_def column_names_def distinct_map_filter)

lemma get_conc_df_succeeds:
  assumes f: "conc_frame df_conc" and k: "keep = {} \<or> drop' = {}"
    and h: "\<not> halt" and a: "ar_p_axis \<noteq> []"
  shows "\<exists>df. get_conc_df ar_p_axis df_conc z_slice halt values drop' keep = Inr df"
proof -
  have "\<exists>z. snap_z_slice ar_p_axis z_slice halt = Inr z"
    using h a by (cases z_slice) (simp_all add: snap_z_slice_def)
  then obtain z where z: "snap_z_slice ar_p_axis z_slice halt = Inr z" ..
  have p: "''mesh_center_p'' \<in> set (column_names df_conc)"
    using conc_frame_coor [OF f] by (auto simp: es_coor_conc_def)
  then have "map_of (columns df_conc) ''mesh_center_p'' \<noteq> None"
    by (simp add: column_names_def map_of_eq_None_iff)
  then have "\<exists>df1. filter_z_slice df_conc z = Inr df1"
    by (cases z) (auto simp: filter_z_slice_def)
  then obtain df1 where f1: "filter_z_slice df_conc z = Inr df1" ..
  let ?d = "drop_columns (es_delete_of es_coor_conc df1 values drop' keep) df1"
  have n: "column_names df1 = column_names df_conc" "index_name df1 = index_name df_conc"
    using filter_z_slice_names [OF f1] by simp_all
  have c: "set (column_names ?d)
      = set (column_names df_conc) - es_delete_of es_coor_conc df1 values drop' keep"
    using drop_columns_names(1) [of "es_delete_of es_coor_conc df1 values drop' keep" df1] n
    by simp
  have s: "es_coor_conc - {''ID''} \<subseteq> set (column_names ?d)"
    using c conc_frame_coor [OF f] es_delete_outside [of es_coor_conc df1 "values" "drop'" keep]
    by auto
  have i: "index_name ?d = ''index''"
    using f n by (simp add: conc_frame_def Let_def drop_columns_names(2))
  have m: "set [''voxel_i'', ''voxel_j'', ''voxel_k'', ''time''] \<subseteq> es_coor_conc - {''ID''}"
    by (simp add: es_coor_conc_def)
  have "\<forall>k \<in> set [''voxel_i'', ''voxel_j'', ''voxel_k'', ''time'']. k \<noteq> ''index''"
    by simp
  then have "\<forall>k \<in> set [''voxel_i'', ''voxel_j'', ''voxel_k'', ''time''].
      k \<in> set (column_names ?d) \<and> k \<noteq> index_name ?d"
    unfolding i using s m by blast
  moreover have "distinct (column_names ?d)"
    using f n by (auto simp: conc_frame_def Let_def intro: drop_columns_distinct)
  ultimately have "sort_values [''voxel_i'', ''voxel_j'', ''voxel_k'', ''time''] ?d = Inr ?d"
    using sort_values_columns by blast
  then show ?thesis
    using k z f1 by (auto simp: get_conc_df_def Let_def)
qed

lemma get_cell_df_succeeds:
  assumes f: "cell_frame df_cell" and k: "keep = {} \<or> drop' = {}"
  shows "\<exists>df. get_cell_df df_cell values drop' keep = Inr df"
proof -
  let ?d = "drop_columns (es_delete_of es_coor_cell df_cell values drop' keep) df_cell"
  let ?e = "?d\<lparr>columns := sort_key fst (columns ?d)\<rparr>"
  have "set (column_names ?e) \<subseteq> set (column_names df_cell)"
    using drop_columns_names(1) [of "es_delete_of es_coor_cell df_cell values drop' keep" df_cell]
    by (auto simp: column_names_def)
  then have "''ID'' \<notin> set (column_names ?e)" using f by (auto simp: cell_frame_def)
  moreover have "index_name ?e = ''ID''" using f by (simp add: cell_frame_def drop_columns_def)
  ultimately have "sort_values [''ID''] ?e = Inr ?e" by simp
  then show ?thesis using k by (auto simp: get_cell_df_def Let_def)
qed

text \<open>
  Claim C10. Whatever \<^verbatim>\<open>values\<close>, \<^verbatim>\<open>drop\<close> and \<^verbatim>\<open>keep\<close> are, a frame returned by \<^verbatim>\<open>get_conc_df\<close> or
  by \<^verbatim>\<open>get_cell_df\<close> has every coordinate column of the stored frame and no column that
  the stored frame lacks; the concentration frame is returned under the index \<^verbatim>\<open>index\<close>
  and the cell frame under the index of the stored frame. For the frames that the loader
  stores this means: the returned concentration frame has the columns \<^verbatim>\<open>voxel_i\<close>,
  \<^verbatim>\<open>voxel_j\<close>, \<^verbatim>\<open>voxel_k\<close>, \<^verbatim>\<open>mesh_center_m\<close>, \<^verbatim>\<open>mesh_center_n\<close>, \<^verbatim>\<open>mesh_center_p\<close>, \<^verbatim>\<open>time\<close>,
  \<^verbatim>\<open>runtime\<close> and \<^verbatim>\<open>xmlfile\<close>, the returned cell frame has these and the three position
  columns and has \<^verbatim>\<open>ID\<close> as its index. Both filters compute the deletion set outside the
  coordinate set. And the accessors do return on the stored frames: \<^verbatim>\<open>get_cell_df\<close> when
  \<^verbatim>\<open>keep\<close> or \<^verbatim>\<open>drop\<close> is empty, \<^verbatim>\<open>get_conc_df\<close> when moreover \<^verbatim>\<open>halt\<close> is off and the mesh
  has a z-axis; the final \<^verbatim>\<open>sort_values\<close> finds its keys there, since they are coordinate
  columns.
\<close>

theorem coordinate_columns_kept:
  "(distinct (column_names df_conc)
    \<and> get_conc_df ar_p_axis df_conc z_slice halt values drop' keep = Inr df \<longrightarrow>
      es_coor_conc \<inter> set (column_names df_conc) \<subseteq> set (column_names df)
      \<and> set (column_names df) \<subseteq> set (column_names df_conc)
      \<and> index_name df = ''index''
      \<and> (conc_frame df_conc \<longrightarrow> es_coor_conc - {''ID''} \<subseteq> set (column_names df)))
   \<and> (distinct (column_names df_cell)
      \<and> get_cell_df df_cell values drop' keep = Inr df \<longrightarrow>
      es_coor_cell \<inter> set (column_names df_cell) \<subseteq> set (column_names df)
      \<and> set (column_names df) \<subseteq> set (column_names df_cell)
      \<and> index_name df = index_name df_cell
      \<and> (cell_frame df_cell \<longrightarrow>
            es_coor_cell - {''ID''} \<subseteq> set (column_names df) \<and> index_name df = ''ID''))
   \<and> es_delete_of es_coor_conc df_conc values drop' keep \<inter> es_coor_conc = {}
   \<and> es_delete_of es_coor_cell df_cell values drop' keep \<inter> es_coor_cell = {}
   \<and> (conc_frame df_conc \<and> (keep = {} \<or> drop' = {}) \<and> \<not> halt \<and> ar_p_axis \<noteq> [] \<longrightarrow>
        (\<exists>df'. get_conc_df ar_p_axis df_conc z_slice halt values drop' keep = Inr df'))
   \<and> (cell_frame df_cell \<and> (keep = {} \<or> drop' = {}) \<longrightarrow>
        (\<exists>df'. get_cell_df df_cell values drop' keep = Inr df'))"
proof (intro conjI impI)
  assume "distinct (column_names df_conc)
    \<and> get_conc_df ar_p_axis df_conc z_slice halt values drop' keep = Inr df"
  then have a: "get_conc_df ar_p_axis df_conc z_slice halt values drop' keep = Inr df" ..
  note r = get_conc_df_Inr [OF a]
  show "es_coor_conc \<inter> set (column_names df_conc) \<subseteq> set (column_names df)" by (rule r(2))
  show "set (column_names df) \<subseteq> set (column_names df_conc)" by (rule r(1))
  show "index_name df = ''index''" by (rule r(3))
  show "es_coor_conc - {''ID''} \<subseteq> set (column_names df)" if "conc_frame df_conc"
    using conc_frame_coor [OF that] r(2) by auto
next
  assume "distinct (column_names df_cell) \<and> get_cell_df df_cell values drop' keep = Inr df"
  then have a: "get_cell_df df_cell values drop' keep = Inr df" ..
  note r = get_cell_df_Inr [OF a]
  show "es_coor_cell \<inter> set (column_names df_cell) \<subseteq> set (column_names df)" by (rule r(2))
  show "set (column_names df) \<subseteq> set (column_names df_cell)" by (rule r(1))
  show "index_name df = index_name df_cell" by (rule r(3))
  show "es_coor_cell - {''ID''} \<subseteq> set (column_names df)" if "cell_frame df_cell"
    using that r(2) by (auto simp: cell_frame_def)
  show "index_name df = ''ID''" if "cell_frame df_cell"
    using that r(3) by (simp add: cell_frame_def)
next
  show "es_delete_of es_coor_conc df_conc values drop' keep \<inter> es_coor_conc = {}"
    by (rule es_delete_outside)
  show "es_delete_of es_coor_cell df_cell values drop' keep \<inter> es_coor_cell = {}"
    by (rule es_delete_outside)
next
  assume "conc_frame df_conc \<and> (keep = {} \<or> drop' = {}) \<and> \<not> halt \<and> ar_p_axis \<noteq> []"
  then show "\<exists>df'. get_conc_df ar_p_axis df_conc z_slice halt values drop' keep = Inr df'"
    using get_conc_df_succeeds by blast
next
  assume "cell_frame df_cell \<and> (keep = {} \<or> drop' = {})"
  then show "\<exists>df'. get_cell_df df_cell values drop' keep = Inr df'"
    using get_cell_df_succeeds by blast
qed

text \<open>
  The theorem at scenario A, with the substrate oxygen and two agents: \<^verbatim>\<open>values = 2\<close>
  takes away the columns with one distinct value that are no coordinate columns
  (\<^verbatim>\<open>oxygen\<close>, although it is in \<^verbatim>\<open>keep\<close>; \<^verbatim>\<open>dead\<close>), and a \<^verbatim>\<open>drop\<close> that names coordinate
  columns takes nothing away.
\<close>

theorem coordinate_columns_kept_witness:
  "get_conc_df [0] scenario_conc (Some 2) False 2 {} {''oxygen''}
      = Inr \<lparr> index_name = ''index'',
               columns =
                 [(''voxel_i'', [Num 0, Num 0, Num 1, Num 1, Num 2, Num 2]),
                  (''voxel_j'', [Num 0, Num 1, Num 0, Num 1, Num 0, Num 1]),
                  (''voxel_k'', [Num 0, Num 0, Num 0, Num 0, Num 0, Num 0]),
                  (''mesh_center_m'', [Num 0, Num 0, Num 10, Num 10, Num 20, Num 20]),
                  (''mesh_center_n'', [Num 0, Num 10, Num 0, Num 10, Num 0, Num 10]),
                  (''mesh_center_p'', [Num 0, Num 0, Num 0, Num 0, Num 0, Num 0]),
                  (''time'', [Num 0, Num 0, Num 0, Num 0, Num 0, Num 0]),
                  (''runtime'', [Num 0, Num 0, Num 0, Num 0, Num 0, Num 0]),
                  (''xmlfile'', replicate 6 (Txt ''output00000000.xml''))] \<rparr>
   \<and> get_cell_df scenario_cell 2 {''position_x'', ''xmlfile''} {}
      = Inr \<lparr> index_name = ''ID'',
               columns =
                 [(''cell_type'', [Txt ''tumor'', Txt ''stroma'']),
                  (''mesh_center_m'', [Num 10, Num 10]),
                  (''mesh_center_n'', [Num 0, Num 0]),
                  (''mesh_center_p'', [Num 0, Num 0]),
                  (''position_x'', [Num 9, Num 11]),
                  (''position_y'', [Num 4, Num 3]),
                  (''position_z'', [Num 0, Num 0]),
                  (''runtime'', [Num 0, Num 0]),
                  (''time'', [Num 0, Num 0]),
                  (''voxel_i'', [Num 1, Num 1]),
                  (''voxel_j'', [Num 0, Num 0]),
                  (''voxel_k'', [Num 0, Num 0]),
                  (''xmlfile'', replicate 2 (Txt ''output00000000.xml''))] \<rparr>
   \<and> conc_frame scenario_conc \<and> cell_frame scenario_cell
   \<and> es_coor_conc - {''ID''}
       \<subseteq> set (column_names
             \<lparr> index_name = ''index'',
               columns =
                 [(''voxel_i'', [Num 0, Num 0, Num 1, Num 1, Num 2, Num 2]),
                  (''voxel_j'', [Num 0, Num 1, Num 0, Num 1, Num 0, Num 1]),
                  (''voxel_k'', [Num 0, Num 0, Num 0, Num 0, Num 0, Num 0]),
                  (''mesh_center_m'', [Num 0, Num 0, Num 10, Num 10, Num 20, Num 20]),
                  (''mesh_center_n'', [Num 0, Num 10, Num 0, Num 10, Num 0, Num 10]),
                  (''mesh_center_p'', [Num 0, Num 0, Num 0, Num 0, Num 0, Num 0]),
                  (''time'', [Num 0, Num 0, Num 0, Num 0, Num 0, Num 0]),
                  (''runtime'', [Num 0, Num 0, Num 0, Num 0, Num 0, Num 0]),
                  (''xmlfile'', replicate 6 (Txt ''output00000000.xml''))] \<rparr>)
   \<and> es_coor_cell - {''ID''}
       \<subseteq> set (column_names
             \<lparr> index_name = ''ID'',
               columns =
                 [(''cell_type'', [Txt ''tumor'', Txt ''stroma'']),
                  (''mesh_center_m'', [Num 10, Num 10]),
                  (''mesh_center_n'', [Num 0, Num 0]),
                  (''mesh_center_p'', [Num 0, Num 0]),
                  (''position_x'', [Num 9, Num 11]),
                  (''position_y'', [Num 4, Num 3]),
                  (''position_z'', [Num 0, Num 0]),
                  (''runtime'', [Num 0, Num 0]),
                  (''time'', [Num 0, Num 0]),
                  (''voxel_i'', [Num 1, Num 1]),
                  (''voxel_j'', [Num 0, Num 0]),
                  (''voxel_k'', [Num 0, Num 0]),
                  (''xmlfile'', replicate 2 (Txt ''output00000000.xml''))] \<rparr>)
   \<and> (\<exists>df. get_conc_df [0] scenario_conc (Some 2) False 2 {} {''oxygen''} = Inr df)
   \<and> (\<exists>df. get_cell_df scenario_cell 2 {''position_x'', ''xmlfile''} {} = Inr df)"
proof -
  let ?c = "\<lparr> index_name = ''index'',
               columns =
                 [(''voxel_i'', [Num 0, Num 0, Num 1, Num 1, Num 2, Num 2]),
                  (''voxel_j'', [Num 0, Num 1, Num 0, Num 1, Num 0, Num 1]),
                  (''voxel_k'', [Num 0, Num 0, Num 0, Num 0, Num 0, Num 0]),
                  (''mesh_center_m'', [Num 0, Num 0, Num 10, Num 10, Num 20, Num 20]),
                  (''mesh_center_n'', [Num 0, Num 10, Num 0, Num 10, Num 0, Num 10]),
                  (''mesh_center_p'', [Num 0, Num 0, Num 0, Num 0, Num 0, Num 0]),
                  (''time'', [Num 0, Num 0, Num 0, Num 0, Num 0, Num 0]),
                  (''runtime'', [Num 0, Num 0, Num 0, Num 0, Num 0, Num 0]),
                  (''xmlfile'', replicate 6 (Txt ''output00000000.xml''))] \<rparr>"
  let ?d = "\<lparr> index_name = ''ID'',
               columns =
                 [(''cell_type'', [Txt ''tumor'', Txt ''stroma'']),
                  (''mesh_center_m'', [Num 10, Num 10]),
                  (''mesh_center_n'', [Num 0, Num 0]),
                  (''mesh_center_p'', [Num 0, Num 0]),
                  (''position_x'', [Num 9, Num 11]),
                  (''position_y'', [Num 4, Num 3]),
                  (''position_z'', [Num 0, Num 0]),
                  (''runtime'', [Num 0, Num 0]),
                  (''time'', [Num 0, Num 0]),
                  (''voxel_i'', [Num 1, Num 1]),
                  (''voxel_j'', [Num 0, Num 0]),
                  (''voxel_k'', [Num 0, Num 0]),
                  (''xmlfile'', replicate 2 (Txt ''output00000000.xml''))] \<rparr>"
  have a: "get_conc_df [0] scenario_conc (Some 2) False 2 {} {''oxygen''} = Inr ?c"
    by code_simp
  have b: "get_cell_df scenario_cell 2 {''position_x'', ''xmlfile''} {} = Inr ?d"
    by code_simp
  have fc: "conc_frame scenario_conc" by code_simp
  have fd: "cell_frame scenario_cell" by code_simp
  have dc: "distinct (column_names scenario_conc)" using fc by (simp add: conc_frame_def Let_def)
  have dd: "distinct (column_names scenario_cell)" using fd by (simp add: cell_frame_def)
  note t1 = coordinate_columns_kept
    [of scenario_conc "[0]" "Some 2" False 2 "{}" "{''oxygen''}" ?c scenario_cell]
  note t2 = coordinate_columns_kept
    [of scenario_conc "[0]" "Some 2" False 2 "{''position_x'', ''xmlfile''}" "{}" ?d scenario_cell]
  have c1: "es_coor_conc - {''ID''} \<subseteq> set (column_names ?c)"
    using t1 a fc dc by blast
  have c2: "\<exists>df. get_conc_df [0] scenario_conc (Some 2) False 2 {} {''oxygen''} = Inr df"
    using t1 fc by blast
  have d1: "es_coor_cell - {''ID''} \<subseteq> set (column_names ?d)"
    using t2 b fd dd by blast
  have d2: "\<exists>df. get_cell_df scenario_cell 2 {''position_x'', ''xmlfile''} {} = Inr df"
    using t2 fd by blast
  from a b fc fd c1 c2 d1 d2 show ?thesis by blast
qed

subsection \<open>The agent-type table\<close>









text \<open>
  A remark on the source as it stands: without a settings document and without the type
  table in the output XML, the loop over the label sizes raises on its first label, and
  without any label the \<^verbatim>\<open>cell_type\<close> row is not found; the load fails either way.
\<close>

lemma observed_tier_not_reached:
  "read_celltype None None ds_substrate labels file \<noteq> Inr st"
proof (cases labels)
  case Nil
  then show ?thesis
    by (auto simp: read_celltype_def read_settingxml_def read_cell_types_def read_label_sizes_def
        read_observed_types_def load_cells_def Let_def split: sum.splits loadmat.splits if_splits)
next
  case (Cons l ls)
  then show ?thesis
    by (simp add: read_celltype_def read_settingxml_def read_cell_types_def read_label_sizes_def)
qed

subsection \<open>The accessors\<close>

text \<open>
  Claim C9 says that every accessor returns an independent copy, so that no mutation of
  a returned object changes the state of the snapshot or what a later accessor call
  returns. \<^verbatim>\<open>get_mesh_mnp_axis\<close> does not keep it: the copy of the list holds the axis
  arrays of the snapshot themselves. On the mesh of scenario A the first axis reads
  \<open>[0, 10, 20]\<close>; after the caller has written 999 into the first entry of the first
  array of the returned list, the array of the snapshot at address 0 holds 999, and the
  next call of the accessor returns the axis \<open>[999, 10, 20]\<close>.
\<close>

theorem get_mesh_mnp_axis_shares_arrays:
  "read_first_axis scenario_mesh_data scenario_store = Some [0, 10, 20]
   \<and> write_first_axis scenario_mesh_data scenario_store 999
       = Some [NdArray [999, 10, 20], NdArray [0, 10], NdArray [0], PyList [0, 1, 2],
               NdArray [0, 10, 20, 0, 10, 20, 0, 0, 0, 10, 10, 10, 0, 0, 0, 0, 0, 0],
               PyList [0, 1, 2]]
   \<and> read_first_axis scenario_mesh_data
         [NdArray [999, 10, 20], NdArray [0, 10], NdArray [0], PyList [0, 1, 2],
          NdArray [0, 10, 20, 0, 10, 20, 0, 0, 0, 10, 10, 10, 0, 0, 0, 0, 0, 0],
          PyList [0, 1, 2]]
       = Some [999, 10, 20]"
  by (simp add: read_first_axis_def write_first_axis_def get_mesh_mnp_axis_def list_copy_def
      alloc_def list_getitem_def ndarray_setitem_def ndarray_values_def
      scenario_mesh_data_def scenario_store_def)

text \<open>
  The sibling accessor \<^verbatim>\<open>get_mesh_coordinate\<close> copies an array, not a list of arrays, and
  keeps what the claim says: a write through the returned array leaves the next
  call's result as it was.
\<close>

lemma get_mesh_coordinate_independent:
  assumes "write_coordinate self h v = Some h'"
  shows "read_coordinate self h' = read_coordinate self h"
proof -
  let ?a = "mnp_coordinate_at self"
  from assms obtain vs where a: "?a < length h" and o: "h ! ?a = NdArray vs" and l: "0 < length vs"
    and h': "h' = (h @ [NdArray vs])[length h := NdArray (vs[0 := v])]"
    by (auto simp: write_coordinate_def get_mesh_coordinate_def ndarray_copy_def alloc_def
        ndarray_setitem_def nth_append split: if_splits pyobj.splits option.splits)
  have "h' ! ?a = NdArray vs" using a o by (simp add: h' nth_append)
  moreover have "?a < length h'" using a by (simp add: h')
  ultimately show ?thesis
    using a o
    by (simp add: read_coordinate_def get_mesh_coordinate_def ndarray_copy_def alloc_def
        ndarray_values_def nth_append)
qed

end
